theory Spec2Isabelle
  imports Complex_Main "HOL-Library.Word"
begin

section \<open>The unlit shader variants of GearVRf\<close>

text \<open>
  The four classes \<^verbatim>\<open>OESShader\<close>, \<^verbatim>\<open>UnlitVerticalStereoShader\<close>, \<^verbatim>\<open>CubemapShader\<close> and
  \<^verbatim>\<open>CubemapReflectionShader\<close> are embedded one by one, as the source duplicates them.
  The C++ side (constructor, destructor, \<^verbatim>\<open>recycle\<close>, \<^verbatim>\<open>render\<close>) is a state-passing
  program over a \<open>world\<close> that holds the C++ heap of \<^verbatim>\<open>GLProgram\<close> objects, the error
  flags of the GL and the trace of everything the program asked of its collaborators.
  The GLSL side (the two shader stages of each class) is a set of pure functions over
  vectors of reals: the GLSL \<^verbatim>\<open>float\<close> is idealised as \<^typ>\<open>real\<close>.

  Names are those of the source. A member loses its trailing underscore (\<^verbatim>\<open>program_\<close> is
  the field \<open>program\<close>), and a member function is prefixed with its class
  (\<^verbatim>\<open>OESShader::render\<close> is \<open>OESShader_render\<close>; the constructor and the destructor are
  \<open>OESShader_ctor\<close> and \<open>OESShader_dtor\<close>). The four records share their field names, so a
  field is written with its record: \<open>OESShader.program\<close>. The local variable \<^verbatim>\<open>mesh\<close> of
  \<^verbatim>\<open>render\<close> is \<open>msh\<close>, since \<open>mesh\<close> is the accessor of the render data.
\<close>

subsection \<open>Names of attributes, uniforms and varyings (\<^verbatim>\<open>shaders/gl_names.h\<close>)\<close>

definition A_POSITION :: string where "A_POSITION = ''a_position''"
definition U_FACTOR :: string where "U_FACTOR = ''u_factor''"
definition U_MVP :: string where "U_MVP = ''u_mvp''"

subsection \<open>Vectors and matrices (glm on the C++ side, GLSL on the GPU side)\<close>

text \<open>
  The selectors are the GLSL components: \<^verbatim>\<open>.x .y .z .w\<close>, which GLSL also spells
  \<^verbatim>\<open>.r .g .b .a\<close>.
\<close>

datatype vec2 = vec2 (x2: real) (y2: real)
datatype vec3 = vec3 (x3: real) (y3: real) (z3: real)
datatype vec4 = vec4 (x4: real) (y4: real) (z4: real) (w4: real)

text \<open>A \<^verbatim>\<open>mat4\<close> is column-major, in glm as in GLSL: its four arguments are its columns.\<close>

datatype mat4 = mat4 vec4 vec4 vec4 vec4

subsection \<open>The collaborators of a shader: GL, mesh, material, render data\<close>

text \<open>
  None of the collaborators is part of the four source files. Their values are
  parameters of the model; a call to one of them is an event of the trace.
  \<^verbatim>\<open>Texture::getTarget\<close> answers one of three targets.
\<close>

datatype tex_target = GL_TEXTURE_2D | GL_TEXTURE_CUBE_MAP | GL_TEXTURE_EXTERNAL_OES

datatype primitive_mode =
  GL_POINTS | GL_LINES | GL_LINE_STRIP | GL_TRIANGLES | GL_TRIANGLE_STRIP | GL_TRIANGLE_FAN

datatype index_type = GL_UNSIGNED_BYTE | GL_UNSIGNED_SHORT | GL_UNSIGNED_INT

datatype component_type = GL_BYTE | GL_SHORT | GL_FLOAT

text \<open>
  The last argument of \<^verbatim>\<open>glVertexAttribPointer\<close> and \<^verbatim>\<open>glDrawElements\<close>: the client
  array behind a \<^verbatim>\<open>data()\<close> pointer, or an offset into the bound buffer (the literal 0
  of the vertex-array-object path).
\<close>

datatype gl_pointer =
    vec3_data "vec3 list"
  | vec2_data "vec2 list"
  | index_data "16 word list"
  | buffer_offset nat

text \<open>
  The GL entry points the four files call, with the arguments they pass, in the types of
  the GL. A location is a \<^verbatim>\<open>GLint\<close>, an \<^typ>\<open>int\<close> (\<open>- 1\<close> is the answer of the GL for
  a name the program does not have). The index of \<^verbatim>\<open>glVertexAttribPointer\<close> and
  \<^verbatim>\<open>glEnableVertexAttribArray\<close> is a \<^verbatim>\<open>GLuint\<close>, a \<^typ>\<open>nat\<close> below \<open>2 ^ 32\<close>. The count
  of \<^verbatim>\<open>glDrawElements\<close> is a \<^verbatim>\<open>GLsizei\<close>, a signed 32-bit \<^typ>\<open>int\<close>.
  \<^verbatim>\<open>glActiveTexture\<close> takes the number of the texture unit (\<^verbatim>\<open>GL_TEXTURE0\<close> is unit 0).
\<close>

datatype gl_call =
    glGetAttribLocation nat string
  | glGetUniformLocation nat string
  | glUseProgram nat
  | glVertexAttribPointer nat nat component_type bool nat gl_pointer
  | glEnableVertexAttribArray nat
  | glUniformMatrix4fv int nat bool mat4
  | glActiveTexture nat
  | glBindTexture tex_target nat
  | glUniform1i int int
  | glUniform3f int real real real
  | glUniform1f int real
  | glBindVertexArray nat
  | glDrawElements primitive_mode int index_type gl_pointer

text \<open>
  The implicit conversions at the calls. A shader keeps the \<^verbatim>\<open>GLint\<close> that
  \<^verbatim>\<open>glGetAttribLocation\<close> answered and hands it on as a \<^verbatim>\<open>GLuint\<close> index: the value
  modulo \<open>2 ^ 32\<close>, so that \<open>- 1\<close> arrives as 4294967295. And \<^verbatim>\<open>triangles().size()\<close>, a
  \<^verbatim>\<open>size_t\<close>, is handed on as a \<^verbatim>\<open>GLsizei\<close> count: the value narrowed to 32 bits and read
  as signed.
\<close>

definition GLuint_of_GLint :: "int \<Rightarrow> nat" where
  "GLuint_of_GLint i = nat (i mod 4294967296)"

definition GLsizei_of_size :: "nat \<Rightarrow> int" where
  "GLsizei_of_size n =
     (if int n mod 4294967296 < 2147483648 then int n mod 4294967296
      else int n mod 4294967296 - 4294967296)"

datatype mat_key = MAIN_TEXTURE | COLOR | OPACITY

datatype event =
    RenderData_mesh
  | Material_getTexture mat_key
  | Material_getVec3 mat_key
  | Material_getFloat mat_key
  | Mesh_setVertexLoc int
  | Mesh_setNormalLoc int
  | Mesh_setTexCoordLoc int
  | Mesh_generateVAO
  | GL gl_call
  | LOGI string nat
  | New_GLProgram nat
  | Delete_GLProgram nat

text \<open>
  How a call ends when it does not return: with a C++ exception (\<^verbatim>\<open>render\<close> throws a
  \<^verbatim>\<open>std::string\<close>), or in undefined behaviour (a null or dangling \<^verbatim>\<open>GLProgram*\<close> is
  dereferenced or deleted).
\<close>

datatype failure = Thrown string | Undefined string

record Texture =
  getTarget :: tex_target
  getId :: nat

record Mesh =
  vertices :: "vec3 list"
  normals :: "vec3 list"
  tex_coords :: "vec2 list"
  triangles :: "16 word list"
  getVAOId :: nat

text \<open>
  The material's accessors are parameters, and each may throw: \<^verbatim>\<open>render\<close> has no
  handler, so whatever an accessor throws leaves \<^verbatim>\<open>render\<close>.
\<close>

record Material =
  getTexture :: "mat_key \<Rightarrow> failure + Texture"
  getVec3 :: "mat_key \<Rightarrow> failure + vec3"
  getFloat :: "mat_key \<Rightarrow> failure + real"

record RenderData =
  mesh :: Mesh
  material :: Material

text \<open>
  The GL implementation, as far as the C++ side depends on it: the program object a
  \<^verbatim>\<open>GLProgram\<close> gets for two shader sources (or the failure of its constructor), the
  locations it answers, and the error flags each call raises.
\<close>

record GLDriver =
  link_program :: "string list \<Rightarrow> string list \<Rightarrow> failure + nat"
  attrib_location :: "nat \<Rightarrow> string \<Rightarrow> int"
  uniform_location :: "nat \<Rightarrow> string \<Rightarrow> int"
  gl_raises :: "gl_call \<Rightarrow> nat list"

text \<open>
  The world: the live \<^verbatim>\<open>GLProgram\<close> objects by address (each with the id of its GL
  program), the next address \<^verbatim>\<open>new\<close> hands out, the error flags \<^verbatim>\<open>glGetError\<close> has
  yet to report, and the trace.
\<close>

record world =
  heap :: "nat \<rightharpoonup> nat"
  next_addr :: nat
  gl_errors :: "nat list"
  trace :: "event list"

definition tell :: "event \<Rightarrow> world \<Rightarrow> world" where
  "tell ev w = w\<lparr>trace := trace w @ [ev]\<rparr>"

definition gl :: "GLDriver \<Rightarrow> gl_call \<Rightarrow> world \<Rightarrow> world" where
  "gl drv c w = w\<lparr>gl_errors := gl_errors w @ gl_raises drv c, trace := trace w @ [GL c]\<rparr>"

definition step :: "GLDriver \<Rightarrow> event \<Rightarrow> world \<Rightarrow> world" where
  "step drv ev w = (case ev of GL c \<Rightarrow> gl drv c w | _ \<Rightarrow> tell ev w)"

text \<open>
  A straight-line run of calls that all return: the GL commands are \<^verbatim>\<open>void\<close> and report
  through the error flags only, and the methods of the mesh are taken to return.
\<close>

fun run :: "GLDriver \<Rightarrow> event list \<Rightarrow> world \<Rightarrow> world" where
  "run drv [] w = w"
| "run drv (ev # evs) w = run drv evs (step drv ev w)"

text \<open>What a call added to the trace.\<close>

definition emitted :: "world \<Rightarrow> world \<Rightarrow> event list" where
  "emitted w w' = drop (length (trace w)) (trace w')"

fun is_gl :: "event \<Rightarrow> bool" where
  "is_gl (GL c) = True"
| "is_gl ev = False"

fun is_draw :: "event \<Rightarrow> bool" where
  "is_draw (GL (glDrawElements m n t p)) = True"
| "is_draw ev = False"

fun is_log :: "event \<Rightarrow> bool" where
  "is_log (LOGI op e) = True"
| "is_log ev = False"

fun is_location_query :: "event \<Rightarrow> bool" where
  "is_location_query (GL (glGetAttribLocation p n)) = True"
| "is_location_query (GL (glGetUniformLocation p n)) = True"
| "is_location_query ev = False"

subsection \<open>\<^verbatim>\<open>GLProgram\<close>: construction, \<^verbatim>\<open>id()\<close>, \<^verbatim>\<open>delete\<close>\<close>


text \<open>\<^verbatim>\<open>program_->id()\<close>: undefined for a null pointer and for a deleted object.\<close>

definition GLProgram_id :: "nat option \<Rightarrow> world \<Rightarrow> failure + nat" where
  "GLProgram_id p w =
     (case p of
        None \<Rightarrow> Inl (Undefined ''null GLProgram dereferenced'')
      | Some a \<Rightarrow>
          (case heap w a of
             None \<Rightarrow> Inl (Undefined ''deleted GLProgram dereferenced'')
           | Some pid \<Rightarrow> Inr pid))"

text \<open>
  \<^verbatim>\<open>delete program_\<close>: nothing happens for a null pointer (C++ defines it so); a live
  object is released; deleting an object a second time is undefined.
\<close>

definition delete_GLProgram :: "nat option \<Rightarrow> world \<Rightarrow> (failure + unit) \<times> world" where
  "delete_GLProgram p w =
     (case p of
        None \<Rightarrow> (Inr (), w)
      | Some a \<Rightarrow>
          (case heap w a of
             None \<Rightarrow> (Inl (Undefined ''GLProgram deleted twice''), w)
           | Some pid \<Rightarrow>
               (Inr (), w\<lparr>heap := (heap w)(a := None),
                          trace := trace w @ [Delete_GLProgram a]\<rparr>)))"

subsection \<open>\<^verbatim>\<open>checkGlError\<close>\<close>

text \<open>
  Modelled from the spec: \<^verbatim>\<open>checkGlError\<close> (\<^verbatim>\<open>util/gvr_gl.h\<close>) is not among the source
  files. The spec has it surface the errors of the preceding calls, "collected/logged,
  not turned into a propagated failure"; it "always logs and continues". So it logs every
  pending error flag under the name it was given, clears the flags and returns.
\<close>

definition checkGlError :: "string \<Rightarrow> world \<Rightarrow> world" where
  "checkGlError op w = w\<lparr>gl_errors := [], trace := trace w @ map (LOGI op) (gl_errors w)\<rparr>"

subsection \<open>The first four statements of every \<^verbatim>\<open>render\<close>\<close>

text \<open>
  All four \<^verbatim>\<open>render\<close> functions start with the same four statements:
  \<^verbatim>\<open>
    Mesh* mesh = render_data->mesh();
    Texture* texture = render_data->material()->getTexture(MAIN_TEXTURE);
    glm::vec3 color = render_data->material()->getVec3(COLOR);
    float opacity = render_data->material()->getFloat(OPACITY);
  \<close>
  Each accessor is called (an event) and either returns or throws.
\<close>

definition read_inputs ::
  "RenderData \<Rightarrow> world \<Rightarrow> (failure + Mesh \<times> Texture \<times> vec3 \<times> real) \<times> world" where
  "read_inputs render_data w0 =
     (let w1 = tell RenderData_mesh w0;
          w2 = tell (Material_getTexture MAIN_TEXTURE) w1
      in case getTexture (material render_data) MAIN_TEXTURE of
           Inl e \<Rightarrow> (Inl e, w2)
         | Inr texture \<Rightarrow>
             (let w3 = tell (Material_getVec3 COLOR) w2
              in case getVec3 (material render_data) COLOR of
                   Inl e \<Rightarrow> (Inl e, w3)
                 | Inr color \<Rightarrow>
                     (let w4 = tell (Material_getFloat OPACITY) w3
                      in case getFloat (material render_data) OPACITY of
                           Inl e \<Rightarrow> (Inl e, w4)
                         | Inr opacity \<Rightarrow>
                             (Inr (mesh render_data, texture, color, opacity), w4))))"


subsection \<open>\<^verbatim>\<open>OESShader\<close> (\<^verbatim>\<open>oes_shader.cpp\<close>)\<close>



record OESShader =
  program :: "nat option"
  a_position :: int
  a_tex_coord :: int
  u_mvp :: int
  u_texture :: int
  u_color :: int
  u_opacity :: int


text \<open>\<^verbatim>\<open>recycle\<close>: \<^verbatim>\<open>delete program_; program_ = 0;\<close>\<close>

definition OESShader_recycle :: "OESShader \<Rightarrow> world \<Rightarrow> (failure + OESShader) \<times> world" where
  "OESShader_recycle this w =
     (case delete_GLProgram (OESShader.program this) w of
        (Inl e, w') \<Rightarrow> (Inl e, w')
      | (Inr u, w') \<Rightarrow> (Inr (this\<lparr>OESShader.program := None\<rparr>), w'))"

text \<open>The destructor: \<^verbatim>\<open>if (program_ != 0) { recycle(); }\<close>\<close>

definition OESShader_dtor :: "OESShader \<Rightarrow> world \<Rightarrow> (failure + OESShader) \<times> world" where
  "OESShader_dtor this w =
     (if OESShader.program this \<noteq> None then OESShader_recycle this w else (Inr this, w))"

text \<open>
  \<^verbatim>\<open>render\<close>. The flag \<open>gles3\<close> is the build-time macro \<^verbatim>\<open>_GVRF_USE_GLES3_\<close>: the
  vertex-array-object path when set, the attribute-pointer path otherwise.
\<close>

definition OESShader_render ::
  "bool \<Rightarrow> GLDriver \<Rightarrow> OESShader \<Rightarrow> mat4 \<Rightarrow> RenderData \<Rightarrow> world \<Rightarrow> (failure + unit) \<times> world" where
  "OESShader_render gles3 drv this mvp_matrix render_data w0 =
     (case read_inputs render_data w0 of
        (Inl e, w1) \<Rightarrow> (Inl e, w1)
      | (Inr (msh, texture, color, opacity), w1) \<Rightarrow>
          if getTarget texture \<noteq> GL_TEXTURE_EXTERNAL_OES
          then (Inl (Thrown ''OESShader::render : texture with wrong target''), w1)
          else if gles3 then
            (let w2 = run drv
                   [Mesh_setVertexLoc (OESShader.a_position this),
                    Mesh_setTexCoordLoc (OESShader.a_tex_coord this),
                    Mesh_generateVAO] w1
             in case GLProgram_id (OESShader.program this) w2 of
                  Inl e \<Rightarrow> (Inl e, w2)
                | Inr pid \<Rightarrow>
                    (Inr (),
                     checkGlError ''OESShader::render''
                       (run drv (map GL
                          [glUseProgram pid,
                           glUniformMatrix4fv (OESShader.u_mvp this) 1 False mvp_matrix,
                           glActiveTexture 0,
                           glBindTexture (getTarget texture) (getId texture),
                           glUniform1i (OESShader.u_texture this) 0,
                           glUniform3f (OESShader.u_color this) (x3 color) (y3 color) (z3 color),
                           glUniform1f (OESShader.u_opacity this) opacity,
                           glBindVertexArray (getVAOId msh),
                           glDrawElements GL_TRIANGLES (GLsizei_of_size (length (triangles msh)))
                             GL_UNSIGNED_SHORT (buffer_offset 0),
                           glBindVertexArray 0]) w2)))
          else
            (case GLProgram_id (OESShader.program this) w1 of
               Inl e \<Rightarrow> (Inl e, w1)
             | Inr pid \<Rightarrow>
                 (Inr (),
                  checkGlError ''OESShader::render''
                    (run drv (map GL
                       [glUseProgram pid,
                        glVertexAttribPointer (GLuint_of_GLint (OESShader.a_position this)) 3 GL_FLOAT False 0
                          (vec3_data (vertices msh)),
                        glEnableVertexAttribArray (GLuint_of_GLint (OESShader.a_position this)),
                        glVertexAttribPointer (GLuint_of_GLint (OESShader.a_tex_coord this)) 2 GL_FLOAT False 0
                          (vec2_data (tex_coords msh)),
                        glEnableVertexAttribArray (GLuint_of_GLint (OESShader.a_tex_coord this)),
                        glUniformMatrix4fv (OESShader.u_mvp this) 1 False mvp_matrix,
                        glActiveTexture 0,
                        glBindTexture (getTarget texture) (getId texture),
                        glUniform1i (OESShader.u_texture this) 0,
                        glUniform3f (OESShader.u_color this) (x3 color) (y3 color) (z3 color),
                        glUniform1f (OESShader.u_opacity this) opacity,
                        glDrawElements GL_TRIANGLES (GLsizei_of_size (length (triangles msh)))
                          GL_UNSIGNED_SHORT (index_data (triangles msh))]) w1))))"

subsection \<open>\<^verbatim>\<open>UnlitVerticalStereoShader\<close> (\<^verbatim>\<open>unlit_vertical_stereo_shader.cpp\<close>)\<close>



record UnlitVerticalStereoShader =
  program :: "nat option"
  a_position :: int
  a_tex_coord :: int
  u_mvp :: int
  u_texture :: int
  u_color :: int
  u_opacity :: int
  u_right :: int


definition UnlitVerticalStereoShader_recycle :: "UnlitVerticalStereoShader \<Rightarrow> world \<Rightarrow> (failure + UnlitVerticalStereoShader) \<times> world" where
  "UnlitVerticalStereoShader_recycle this w =
     (case delete_GLProgram (UnlitVerticalStereoShader.program this) w of
        (Inl e, w') \<Rightarrow> (Inl e, w')
      | (Inr u, w') \<Rightarrow> (Inr (this\<lparr>UnlitVerticalStereoShader.program := None\<rparr>), w'))"

definition UnlitVerticalStereoShader_dtor :: "UnlitVerticalStereoShader \<Rightarrow> world \<Rightarrow> (failure + UnlitVerticalStereoShader) \<times> world" where
  "UnlitVerticalStereoShader_dtor this w =
     (if UnlitVerticalStereoShader.program this \<noteq> None then UnlitVerticalStereoShader_recycle this w else (Inr this, w))"

text \<open>\<^verbatim>\<open>render\<close>, with \<open>gles3\<close> for \<^verbatim>\<open>_GVRF_USE_GLES3_\<close> as before.\<close>

definition UnlitVerticalStereoShader_render ::
  "bool \<Rightarrow> GLDriver \<Rightarrow> UnlitVerticalStereoShader \<Rightarrow> mat4 \<Rightarrow> RenderData \<Rightarrow> bool \<Rightarrow> world
     \<Rightarrow> (failure + unit) \<times> world" where
  "UnlitVerticalStereoShader_render gles3 drv this mvp_matrix render_data right w0 =
     (case read_inputs render_data w0 of
        (Inl e, w1) \<Rightarrow> (Inl e, w1)
      | (Inr (msh, texture, color, opacity), w1) \<Rightarrow>
          if getTarget texture \<noteq> GL_TEXTURE_2D
          then (Inl (Thrown ''UnlitVerticalStereoShader::render : texture with wrong target''), w1)
          else if gles3 then
            (let w2 = run drv
                   [Mesh_setVertexLoc (UnlitVerticalStereoShader.a_position this),
                    Mesh_setTexCoordLoc (UnlitVerticalStereoShader.a_tex_coord this),
                    Mesh_generateVAO] w1
             in case GLProgram_id (UnlitVerticalStereoShader.program this) w2 of
                  Inl e \<Rightarrow> (Inl e, w2)
                | Inr pid \<Rightarrow>
                    (Inr (),
                     checkGlError ''UnlitShader::render''
                       (run drv (map GL
                          [glUseProgram pid,
                           glUniformMatrix4fv (UnlitVerticalStereoShader.u_mvp this) 1 False mvp_matrix,
                           glActiveTexture 0,
                           glBindTexture (getTarget texture) (getId texture),
                           glUniform1i (UnlitVerticalStereoShader.u_texture this) 0,
                           glUniform3f (UnlitVerticalStereoShader.u_color this) (x3 color) (y3 color) (z3 color),
                           glUniform1f (UnlitVerticalStereoShader.u_opacity this) opacity,
                           glUniform1i (UnlitVerticalStereoShader.u_right this) (if right then 1 else 0),
                           glBindVertexArray (getVAOId msh),
                           glDrawElements GL_TRIANGLES (GLsizei_of_size (length (triangles msh)))
                             GL_UNSIGNED_SHORT (buffer_offset 0),
                           glBindVertexArray 0]) w2)))
          else
            (case GLProgram_id (UnlitVerticalStereoShader.program this) w1 of
               Inl e \<Rightarrow> (Inl e, w1)
             | Inr pid \<Rightarrow>
                 (Inr (),
                  checkGlError ''UnlitShader::render''
                    (run drv (map GL
                       [glUseProgram pid,
                        glVertexAttribPointer (GLuint_of_GLint (UnlitVerticalStereoShader.a_position this)) 3 GL_FLOAT False 0
                          (vec3_data (vertices msh)),
                        glEnableVertexAttribArray (GLuint_of_GLint (UnlitVerticalStereoShader.a_position this)),
                        glVertexAttribPointer (GLuint_of_GLint (UnlitVerticalStereoShader.a_tex_coord this)) 2 GL_FLOAT False 0
                          (vec2_data (tex_coords msh)),
                        glEnableVertexAttribArray (GLuint_of_GLint (UnlitVerticalStereoShader.a_tex_coord this)),
                        glUniformMatrix4fv (UnlitVerticalStereoShader.u_mvp this) 1 False mvp_matrix,
                        glActiveTexture 0,
                        glBindTexture (getTarget texture) (getId texture),
                        glUniform1i (UnlitVerticalStereoShader.u_texture this) 0,
                        glUniform3f (UnlitVerticalStereoShader.u_color this) (x3 color) (y3 color) (z3 color),
                        glUniform1f (UnlitVerticalStereoShader.u_opacity this) opacity,
                        glUniform1i (UnlitVerticalStereoShader.u_right this) (if right then 1 else 0),
                        glDrawElements GL_TRIANGLES (GLsizei_of_size (length (triangles msh)))
                          GL_UNSIGNED_SHORT (index_data (triangles msh))]) w1))))"

subsection \<open>\<^verbatim>\<open>CubemapShader\<close> (\<^verbatim>\<open>cubemap_shader.cpp\<close>)\<close>



record CubemapShader =
  program :: "nat option"
  a_position :: int
  u_model :: int
  u_mvp :: int
  u_texture :: int
  u_color :: int
  u_opacity :: int


definition CubemapShader_recycle :: "CubemapShader \<Rightarrow> world \<Rightarrow> (failure + CubemapShader) \<times> world" where
  "CubemapShader_recycle this w =
     (case delete_GLProgram (CubemapShader.program this) w of
        (Inl e, w') \<Rightarrow> (Inl e, w')
      | (Inr u, w') \<Rightarrow> (Inr (this\<lparr>CubemapShader.program := None\<rparr>), w'))"

definition CubemapShader_dtor :: "CubemapShader \<Rightarrow> world \<Rightarrow> (failure + CubemapShader) \<times> world" where
  "CubemapShader_dtor this w =
     (if CubemapShader.program this \<noteq> None then CubemapShader_recycle this w else (Inr this, w))"

text \<open>\<^verbatim>\<open>render\<close>, with \<open>gles3\<close> for \<^verbatim>\<open>_GVRF_USE_GLES3_\<close> as before.\<close>

definition CubemapShader_render ::
  "bool \<Rightarrow> GLDriver \<Rightarrow> CubemapShader \<Rightarrow> mat4 \<Rightarrow> mat4 \<Rightarrow> RenderData \<Rightarrow> world
     \<Rightarrow> (failure + unit) \<times> world" where
  "CubemapShader_render gles3 drv this model_matrix mvp_matrix render_data w0 =
     (case read_inputs render_data w0 of
        (Inl e, w1) \<Rightarrow> (Inl e, w1)
      | (Inr (msh, texture, color, opacity), w1) \<Rightarrow>
          if getTarget texture \<noteq> GL_TEXTURE_CUBE_MAP
          then (Inl (Thrown ''CubemapShader::render : texture with wrong target''), w1)
          else if gles3 then
            (let w2 = run drv
                   [Mesh_setVertexLoc (CubemapShader.a_position this),
                    Mesh_generateVAO] w1
             in case GLProgram_id (CubemapShader.program this) w2 of
                  Inl e \<Rightarrow> (Inl e, w2)
                | Inr pid \<Rightarrow>
                    (Inr (),
                     checkGlError ''CubemapShader::render''
                       (run drv (map GL
                          [glUseProgram pid,
                           glUniformMatrix4fv (CubemapShader.u_model this) 1 False model_matrix,
                           glUniformMatrix4fv (CubemapShader.u_mvp this) 1 False mvp_matrix,
                           glActiveTexture 0,
                           glBindTexture (getTarget texture) (getId texture),
                           glUniform1i (CubemapShader.u_texture this) 0,
                           glUniform3f (CubemapShader.u_color this) (x3 color) (y3 color) (z3 color),
                           glUniform1f (CubemapShader.u_opacity this) opacity,
                           glBindVertexArray (getVAOId msh),
                           glDrawElements GL_TRIANGLES (GLsizei_of_size (length (triangles msh)))
                             GL_UNSIGNED_SHORT (buffer_offset 0),
                           glBindVertexArray 0]) w2)))
          else
            (case GLProgram_id (CubemapShader.program this) w1 of
               Inl e \<Rightarrow> (Inl e, w1)
             | Inr pid \<Rightarrow>
                 (Inr (),
                  checkGlError ''CubemapShader::render''
                    (run drv (map GL
                       [glUseProgram pid,
                        glVertexAttribPointer (GLuint_of_GLint (CubemapShader.a_position this)) 3 GL_FLOAT False 0
                          (vec3_data (vertices msh)),
                        glEnableVertexAttribArray (GLuint_of_GLint (CubemapShader.a_position this)),
                        glUniformMatrix4fv (CubemapShader.u_model this) 1 False model_matrix,
                        glUniformMatrix4fv (CubemapShader.u_mvp this) 1 False mvp_matrix,
                        glActiveTexture 0,
                        glBindTexture (getTarget texture) (getId texture),
                        glUniform1i (CubemapShader.u_texture this) 0,
                        glUniform3f (CubemapShader.u_color this) (x3 color) (y3 color) (z3 color),
                        glUniform1f (CubemapShader.u_opacity this) opacity,
                        glDrawElements GL_TRIANGLES (GLsizei_of_size (length (triangles msh)))
                          GL_UNSIGNED_SHORT (index_data (triangles msh))]) w1))))"

subsection \<open>\<^verbatim>\<open>CubemapReflectionShader\<close> (\<^verbatim>\<open>cubemap_reflection_shader.cpp\<close>)\<close>



record CubemapReflectionShader =
  program :: "nat option"
  a_position :: int
  a_normal :: int
  u_mv :: int
  u_mv_it :: int
  u_mvp :: int
  u_view_i :: int
  u_texture :: int
  u_color :: int
  u_opacity :: int


definition CubemapReflectionShader_recycle :: "CubemapReflectionShader \<Rightarrow> world \<Rightarrow> (failure + CubemapReflectionShader) \<times> world" where
  "CubemapReflectionShader_recycle this w =
     (case delete_GLProgram (CubemapReflectionShader.program this) w of
        (Inl e, w') \<Rightarrow> (Inl e, w')
      | (Inr u, w') \<Rightarrow> (Inr (this\<lparr>CubemapReflectionShader.program := None\<rparr>), w'))"

definition CubemapReflectionShader_dtor :: "CubemapReflectionShader \<Rightarrow> world \<Rightarrow> (failure + CubemapReflectionShader) \<times> world" where
  "CubemapReflectionShader_dtor this w =
     (if CubemapReflectionShader.program this \<noteq> None then CubemapReflectionShader_recycle this w else (Inr this, w))"

text \<open>\<^verbatim>\<open>render\<close>, with \<open>gles3\<close> for \<^verbatim>\<open>_GVRF_USE_GLES3_\<close> as before.
  In the attribute-pointer path only \<^verbatim>\<open>a_position_\<close> is given a pointer: the source binds
  no normals there.\<close>

definition CubemapReflectionShader_render ::
  "bool \<Rightarrow> GLDriver \<Rightarrow> CubemapReflectionShader \<Rightarrow> mat4 \<Rightarrow> mat4 \<Rightarrow> mat4 \<Rightarrow> mat4 \<Rightarrow> RenderData \<Rightarrow> world
     \<Rightarrow> (failure + unit) \<times> world" where
  "CubemapReflectionShader_render gles3 drv this mv_matrix mv_it_matrix view_invers_matrix mvp_matrix render_data w0 =
     (case read_inputs render_data w0 of
        (Inl e, w1) \<Rightarrow> (Inl e, w1)
      | (Inr (msh, texture, color, opacity), w1) \<Rightarrow>
          if getTarget texture \<noteq> GL_TEXTURE_CUBE_MAP
          then (Inl (Thrown ''CubemapReflectionShader::render : texture with wrong target''), w1)
          else if gles3 then
            (let w2 = run drv
                   [Mesh_setVertexLoc (CubemapReflectionShader.a_position this),
                    Mesh_setNormalLoc (CubemapReflectionShader.a_normal this),
                    Mesh_generateVAO] w1
             in case GLProgram_id (CubemapReflectionShader.program this) w2 of
                  Inl e \<Rightarrow> (Inl e, w2)
                | Inr pid \<Rightarrow>
                    (Inr (),
                     checkGlError ''CubemapReflectionShader::render''
                       (run drv (map GL
                          [glUseProgram pid,
                           glUniformMatrix4fv (CubemapReflectionShader.u_mv this) 1 False mv_matrix,
                           glUniformMatrix4fv (CubemapReflectionShader.u_mv_it this) 1 False mv_it_matrix,
                           glUniformMatrix4fv (CubemapReflectionShader.u_mvp this) 1 False mvp_matrix,
                           glUniformMatrix4fv (CubemapReflectionShader.u_view_i this) 1 False view_invers_matrix,
                           glActiveTexture 0,
                           glBindTexture (getTarget texture) (getId texture),
                           glUniform1i (CubemapReflectionShader.u_texture this) 0,
                           glUniform3f (CubemapReflectionShader.u_color this) (x3 color) (y3 color) (z3 color),
                           glUniform1f (CubemapReflectionShader.u_opacity this) opacity,
                           glBindVertexArray (getVAOId msh),
                           glDrawElements GL_TRIANGLES (GLsizei_of_size (length (triangles msh)))
                             GL_UNSIGNED_SHORT (buffer_offset 0),
                           glBindVertexArray 0]) w2)))
          else
            (case GLProgram_id (CubemapReflectionShader.program this) w1 of
               Inl e \<Rightarrow> (Inl e, w1)
             | Inr pid \<Rightarrow>
                 (Inr (),
                  checkGlError ''CubemapReflectionShader::render''
                    (run drv (map GL
                       [glUseProgram pid,
                        glVertexAttribPointer (GLuint_of_GLint (CubemapReflectionShader.a_position this)) 3 GL_FLOAT False 0
                          (vec3_data (vertices msh)),
                        glEnableVertexAttribArray (GLuint_of_GLint (CubemapReflectionShader.a_position this)),
                        glUniformMatrix4fv (CubemapReflectionShader.u_mv this) 1 False mv_matrix,
                        glUniformMatrix4fv (CubemapReflectionShader.u_mv_it this) 1 False mv_it_matrix,
                        glUniformMatrix4fv (CubemapReflectionShader.u_mvp this) 1 False mvp_matrix,
                        glUniformMatrix4fv (CubemapReflectionShader.u_view_i this) 1 False view_invers_matrix,
                        glActiveTexture 0,
                        glBindTexture (getTarget texture) (getId texture),
                        glUniform1i (CubemapReflectionShader.u_texture this) 0,
                        glUniform3f (CubemapReflectionShader.u_color this) (x3 color) (y3 color) (z3 color),
                        glUniform1f (CubemapReflectionShader.u_opacity this) opacity,
                        glDrawElements GL_TRIANGLES (GLsizei_of_size (length (triangles msh)))
                          GL_UNSIGNED_SHORT (index_data (triangles msh))]) w1))))"


subsection \<open>GLSL: operators and built-in functions\<close>

text \<open>
  The operators and built-ins the four vertex and fragment shaders use, as the GLSL ES
  specification defines them: \<^verbatim>\<open>mat4 * vec4\<close>, the swizzles \<^verbatim>\<open>.xy\<close> and \<^verbatim>\<open>.xyz\<close>, the
  constructor \<^verbatim>\<open>vec4(vec3, float)\<close>, \<^verbatim>\<open>vec3 / float\<close>, \<^verbatim>\<open>dot\<close>, \<^verbatim>\<open>length\<close>,
  \<^verbatim>\<open>normalize(x) = x / length(x)\<close> and \<^verbatim>\<open>reflect(I, N) = I - 2 * dot(N, I) * N\<close>.
  Division is that of \<^typ>\<open>real\<close>: where GLSL leaves a division by zero undefined, the
  model has the value 0.
\<close>

fun mat_vec :: "mat4 \<Rightarrow> vec4 \<Rightarrow> vec4" where
  "mat_vec (mat4 (vec4 a0 a1 a2 a3) (vec4 b0 b1 b2 b3) (vec4 c0 c1 c2 c3) (vec4 d0 d1 d2 d3))
       (vec4 x y z w) =
     vec4 (a0 * x + b0 * y + c0 * z + d0 * w)
          (a1 * x + b1 * y + c1 * z + d1 * w)
          (a2 * x + b2 * y + c2 * z + d2 * w)
          (a3 * x + b3 * y + c3 * z + d3 * w)"

definition xy :: "vec4 \<Rightarrow> vec2" where
  "xy v = vec2 (x4 v) (y4 v)"

definition xyz :: "vec4 \<Rightarrow> vec3" where
  "xyz v = vec3 (x4 v) (y4 v) (z4 v)"

definition vec4_of :: "vec3 \<Rightarrow> real \<Rightarrow> vec4" where
  "vec4_of v s = vec4 (x3 v) (y3 v) (z3 v) s"

definition div3 :: "vec3 \<Rightarrow> real \<Rightarrow> vec3" where
  "div3 v s = vec3 (x3 v / s) (y3 v / s) (z3 v / s)"

definition scale3 :: "real \<Rightarrow> vec3 \<Rightarrow> vec3" where
  "scale3 s v = vec3 (s * x3 v) (s * y3 v) (s * z3 v)"

definition sub3 :: "vec3 \<Rightarrow> vec3 \<Rightarrow> vec3" where
  "sub3 a b = vec3 (x3 a - x3 b) (y3 a - y3 b) (z3 a - z3 b)"

definition dot :: "vec3 \<Rightarrow> vec3 \<Rightarrow> real" where
  "dot a b = x3 a * x3 b + y3 a * y3 b + z3 a * z3 b"

definition length3 :: "vec3 \<Rightarrow> real" where
  "length3 v = sqrt (dot v v)"

definition normalize3 :: "vec3 \<Rightarrow> vec3" where
  "normalize3 v = div3 v (length3 v)"

definition reflect :: "vec3 \<Rightarrow> vec3 \<Rightarrow> vec3" where
  "reflect I N = sub3 I (scale3 (2 * dot N I) N)"

definition identity :: mat4 where
  "identity = mat4 (vec4 1 0 0 0) (vec4 0 1 0 0) (vec4 0 0 1 0) (vec4 0 0 0 1)"

subsection \<open>The shader stages\<close>

text \<open>
  Each stage is the \<^verbatim>\<open>main\<close> of the GLSL source above, statement by statement. A vertex
  stage returns the varying \<^verbatim>\<open>v_tex_coord\<close> and \<^verbatim>\<open>gl_Position\<close>; a fragment stage
  returns \<^verbatim>\<open>gl_FragColor\<close>. The arguments are the uniforms (\<open>mvp\<close> for \<^verbatim>\<open>u_mvp\<close>,
  \<open>sampler\<close> for \<^verbatim>\<open>u_texture\<close>, \<open>ucolor\<close>, \<open>uopacity\<close>, \<open>uright\<close>, and so on), then the
  attributes (\<open>position\<close>, \<open>normal\<close>, \<open>texcoord\<close>) or the varying (\<open>vtexcoord\<close>). A
  sampler is the function from a coordinate to the texel the GL returns for it.
\<close>

definition OESShader_vertex :: "mat4 \<Rightarrow> vec4 \<Rightarrow> vec4 \<Rightarrow> vec2 \<times> vec4" where
  "OESShader_vertex mvp position texcoord = (xy texcoord, mat_vec mvp position)"

definition OESShader_fragment :: "(vec2 \<Rightarrow> vec4) \<Rightarrow> vec3 \<Rightarrow> real \<Rightarrow> vec2 \<Rightarrow> vec4" where
  "OESShader_fragment sampler ucolor uopacity vtexcoord =
     (let color = sampler vtexcoord
      in vec4 (x4 color * x3 ucolor * uopacity) (y4 color * y3 ucolor * uopacity)
              (z4 color * z3 ucolor * uopacity) (w4 color * uopacity))"

definition UnlitVerticalStereoShader_vertex :: "mat4 \<Rightarrow> vec4 \<Rightarrow> vec4 \<Rightarrow> vec2 \<times> vec4" where
  "UnlitVerticalStereoShader_vertex mvp position texcoord = (xy texcoord, mat_vec mvp position)"

text \<open>
  The first statement of the stereo fragment stage:
  \<^verbatim>\<open>vec2 tex_coord = vec2(v_tex_coord.x, 0.5 * (v_tex_coord.y + float(u_right)));\<close>
\<close>

definition UnlitVerticalStereoShader_tex_coord :: "int \<Rightarrow> vec2 \<Rightarrow> vec2" where
  "UnlitVerticalStereoShader_tex_coord uright vtexcoord =
     vec2 (x2 vtexcoord) (0.5 * (y2 vtexcoord + real_of_int uright))"

definition UnlitVerticalStereoShader_fragment ::
  "(vec2 \<Rightarrow> vec4) \<Rightarrow> vec3 \<Rightarrow> real \<Rightarrow> int \<Rightarrow> vec2 \<Rightarrow> vec4" where
  "UnlitVerticalStereoShader_fragment sampler ucolor uopacity uright vtexcoord =
     (let tex_coord = UnlitVerticalStereoShader_tex_coord uright vtexcoord;
          color = sampler tex_coord
      in vec4 (x4 color * x3 ucolor * uopacity) (y4 color * y3 ucolor * uopacity)
              (z4 color * z3 ucolor * uopacity) (w4 color * uopacity))"

definition CubemapShader_vertex :: "mat4 \<Rightarrow> mat4 \<Rightarrow> vec4 \<Rightarrow> vec3 \<times> vec4" where
  "CubemapShader_vertex model mvp position =
     (let t = normalize3 (xyz (mat_vec model position));
          t' = vec3 (x3 t) (y3 t) (- z3 t)
      in (t', mat_vec mvp position))"

definition CubemapShader_fragment :: "(vec3 \<Rightarrow> vec4) \<Rightarrow> vec3 \<Rightarrow> real \<Rightarrow> vec3 \<Rightarrow> vec4" where
  "CubemapShader_fragment sampler ucolor uopacity vtexcoord =
     (let color = sampler vtexcoord
      in vec4 (x4 color * x3 ucolor * uopacity) (y4 color * y3 ucolor * uopacity)
              (z4 color * z3 ucolor * uopacity) (w4 color * uopacity))"

definition CubemapReflectionShader_vertex ::
  "mat4 \<Rightarrow> mat4 \<Rightarrow> mat4 \<Rightarrow> mat4 \<Rightarrow> vec4 \<Rightarrow> vec3 \<Rightarrow> vec3 \<times> vec4" where
  "CubemapReflectionShader_vertex mv mv_it mvp view_i position normal =
     (let v_viewspace_position_vec4 = mat_vec mv position;
          v_viewspace_position =
            div3 (xyz v_viewspace_position_vec4) (w4 v_viewspace_position_vec4);
          v_viewspace_normal = xyz (mat_vec mv_it (vec4_of normal 1));
          v_reflected_position =
            reflect v_viewspace_position (normalize3 v_viewspace_normal);
          t = xyz (mat_vec view_i (vec4_of v_reflected_position 1));
          t' = vec3 (x3 t) (y3 t) (- z3 t)
      in (t', mat_vec mvp position))"

definition CubemapReflectionShader_fragment ::
  "(vec3 \<Rightarrow> vec4) \<Rightarrow> vec3 \<Rightarrow> real \<Rightarrow> vec3 \<Rightarrow> vec4" where
  "CubemapReflectionShader_fragment sampler ucolor uopacity vtexcoord =
     (let color = sampler (vec3 (x3 vtexcoord) (y3 vtexcoord) (z3 vtexcoord))
      in vec4 (x4 color * x3 ucolor * uopacity) (y4 color * y3 ucolor * uopacity)
              (z4 color * z3 ucolor * uopacity) (w4 color * uopacity))"


subsection \<open>Vocabulary of the properties\<close>

text \<open>The error flags an event raises: only a GL call raises any.\<close>

definition raised :: "GLDriver \<Rightarrow> event \<Rightarrow> nat list" where
  "raised drv ev = (case ev of GL c \<Rightarrow> gl_raises drv c | _ \<Rightarrow> [])"

text \<open>The three accessors of the material return \<open>t\<close>, \<open>c\<close> and \<open>a\<close>.\<close>

definition inputs :: "RenderData \<Rightarrow> Texture \<Rightarrow> vec3 \<Rightarrow> real \<Rightarrow> bool" where
  "inputs rd t c a =
     (getTexture (material rd) MAIN_TEXTURE = Inr t \<and>
      getVec3 (material rd) COLOR = Inr c \<and>
      getFloat (material rd) OPACITY = Inr a)"

text \<open>A \<^verbatim>\<open>GLProgram*\<close> that points to a live object: not null, not deleted.\<close>

definition live :: "nat option \<Rightarrow> world \<Rightarrow> bool" where
  "live p w = (case p of None \<Rightarrow> False | Some a \<Rightarrow> heap w a \<noteq> None)"

text \<open>The events of the four statements that open every \<^verbatim>\<open>render\<close>.\<close>

definition material_reads :: "event list" where
  "material_reads =
     [RenderData_mesh, Material_getTexture MAIN_TEXTURE,
      Material_getVec3 COLOR, Material_getFloat OPACITY]"

text \<open>The events of a call, by kind.\<close>

definition gpu_commands :: "world \<Rightarrow> world \<Rightarrow> event list" where
  "gpu_commands w w' = filter is_gl (emitted w w')"

definition draw_calls :: "world \<Rightarrow> world \<Rightarrow> event list" where
  "draw_calls w w' = filter is_draw (emitted w w')"


definition log_lines :: "world \<Rightarrow> world \<Rightarrow> event list" where
  "log_lines w w' = filter is_log (emitted w w')"

text \<open>
  The events that name a location: the GL commands that bind something to a location,
  and the calls that hand an attribute location to the mesh.
\<close>

fun is_binding :: "event \<Rightarrow> bool" where
  "is_binding (GL (glVertexAttribPointer i n t b s p)) = True"
| "is_binding (GL (glEnableVertexAttribArray i)) = True"
| "is_binding (GL (glUniformMatrix4fv l n b m)) = True"
| "is_binding (GL (glUniform1i l v)) = True"
| "is_binding (GL (glUniform3f l x y z)) = True"
| "is_binding (GL (glUniform1f l v)) = True"
| "is_binding (Mesh_setVertexLoc l) = True"
| "is_binding (Mesh_setNormalLoc l) = True"
| "is_binding (Mesh_setTexCoordLoc l) = True"
| "is_binding ev = False"



text \<open>One call after another on the same object: the second runs if the first returned.\<close>

definition and_then ::
  "(failure + 's) \<times> world \<Rightarrow> ('s \<Rightarrow> world \<Rightarrow> (failure + 's) \<times> world)
     \<Rightarrow> (failure + 's) \<times> world" where
  "and_then r f = (case r of (Inl e, w) \<Rightarrow> (Inl e, w) | (Inr s, w) \<Rightarrow> f s w)"

text \<open>
  The words of the specification for the shader stages, to compare the stages with:
  a vector transformed by a matrix as a direction (homogeneous coordinate 0) and as a
  point (homogeneous coordinate 1), the negation of a z component, and the unlit colour
  \<^verbatim>\<open>sample.rgb * color.rgb * opacity\<close> with alpha \<^verbatim>\<open>sample.a * opacity\<close>.
\<close>

definition transform_direction :: "mat4 \<Rightarrow> vec3 \<Rightarrow> vec3" where
  "transform_direction m d = xyz (mat_vec m (vec4_of d 0))"

definition transform_point :: "mat4 \<Rightarrow> vec3 \<Rightarrow> vec3" where
  "transform_point m p = xyz (mat_vec m (vec4_of p 1))"

definition negate_z :: "vec3 \<Rightarrow> vec3" where
  "negate_z v = vec3 (x3 v) (y3 v) (- z3 v)"

definition add3 :: "vec3 \<Rightarrow> vec3 \<Rightarrow> vec3" where
  "add3 a b = vec3 (x3 a + x3 b) (y3 a + y3 b) (z3 a + z3 b)"

text \<open>The translation of an affine matrix: the \<^verbatim>\<open>xyz\<close> of its fourth column.\<close>

fun translation :: "mat4 \<Rightarrow> vec3" where
  "translation (mat4 c0 c1 c2 c3) = xyz c3"

text \<open>
  The texture coordinate of the reflection shader in the words of claim C5: the
  perspective-divided view-space position, reflected about the normalized view-space
  normal, transformed by the view-inverse matrix as a direction, z negated.
\<close>

definition reflection_as_direction :: "mat4 \<Rightarrow> mat4 \<Rightarrow> mat4 \<Rightarrow> vec4 \<Rightarrow> vec3 \<Rightarrow> vec3" where
  "reflection_as_direction mv mv_it view_i position normal =
     negate_z (transform_direction view_i
       (reflect (div3 (xyz (mat_vec mv position)) (w4 (mat_vec mv position)))
          (normalize3 (xyz (mat_vec mv_it (vec4_of normal 1))))))"

definition mul3 :: "vec3 \<Rightarrow> vec3 \<Rightarrow> vec3" where
  "mul3 a b = vec3 (x3 a * x3 b) (y3 a * y3 b) (z3 a * z3 b)"

definition unlit_output :: "vec4 \<Rightarrow> vec3 \<Rightarrow> real \<Rightarrow> vec4" where
  "unlit_output sample color opacity =
     vec4_of (scale3 opacity (mul3 (xyz sample) color)) (w4 sample * opacity)"

subsection \<open>Example inputs\<close>

text \<open>
  A unit quad (4 vertices, 2 triangles, 6 indices), a white opaque material over a
  texture of a given target, a GL that knows \<^verbatim>\<open>a_position\<close> and \<^verbatim>\<open>u_mvp\<close> only and
  flags \<^verbatim>\<open>GL_INVALID_VALUE\<close> (1281) for an attribute array of index 4294967295, and a world
  with one live \<^verbatim>\<open>GLProgram\<close> at address 0 and a pending \<^verbatim>\<open>GL_INVALID_ENUM\<close> (1280).
\<close>

definition ex_quad :: Mesh where
  "ex_quad =
     \<lparr>vertices = [vec3 0 0 0, vec3 1 0 0, vec3 0 1 0, vec3 1 1 0],
      normals = [vec3 0 0 1, vec3 0 0 1, vec3 0 0 1, vec3 0 0 1],
      tex_coords = [vec2 0 0, vec2 1 0, vec2 0 1, vec2 1 1],
      triangles = [0, 1, 2, 1, 3, 2],
      getVAOId = 5\<rparr>"

definition ex_texture :: "tex_target \<Rightarrow> Texture" where
  "ex_texture tg = \<lparr>getTarget = tg, getId = 7\<rparr>"

definition ex_material :: "tex_target \<Rightarrow> Material" where
  "ex_material tg =
     \<lparr>getTexture = (\<lambda>k. Inr (ex_texture tg)),
      getVec3 = (\<lambda>k. Inr (vec3 1 1 1)),
      getFloat = (\<lambda>k. Inr 1)\<rparr>"

definition ex_render_data :: "tex_target \<Rightarrow> RenderData" where
  "ex_render_data tg = \<lparr>mesh = ex_quad, material = ex_material tg\<rparr>"

text \<open>The same material over a mesh of \<open>2 ^ 31\<close> triangle indices.\<close>

definition ex_huge_mesh :: Mesh where
  "ex_huge_mesh =
     \<lparr>vertices = [], normals = [], tex_coords = [],
      triangles = replicate 2147483648 0, getVAOId = 5\<rparr>"

definition ex_huge_render_data :: "tex_target \<Rightarrow> RenderData" where
  "ex_huge_render_data tg = \<lparr>mesh = ex_huge_mesh, material = ex_material tg\<rparr>"

text \<open>The same over a material that lacks one property: its accessor throws.\<close>

definition ex_material_without :: "mat_key \<Rightarrow> tex_target \<Rightarrow> Material" where
  "ex_material_without missing tg =
     \<lparr>getTexture = (\<lambda>k. if missing = MAIN_TEXTURE then Inl (Thrown ''no texture'')
                          else Inr (ex_texture tg)),
      getVec3 = (\<lambda>k. if missing = COLOR then Inl (Thrown ''no color'') else Inr (vec3 1 1 1)),
      getFloat = (\<lambda>k. if missing = OPACITY then Inl (Thrown ''no opacity'') else Inr 1)\<rparr>"

definition ex_render_data_without :: "mat_key \<Rightarrow> tex_target \<Rightarrow> RenderData" where
  "ex_render_data_without missing tg =
     \<lparr>mesh = ex_quad, material = ex_material_without missing tg\<rparr>"

definition ex_driver :: GLDriver where
  "ex_driver =
     \<lparr>link_program = (\<lambda>vs fs. Inr 3),
      attrib_location = (\<lambda>p n. if n = A_POSITION then 0 else - 1),
      uniform_location = (\<lambda>p n. if n = U_MVP then 0 else - 1),
      gl_raises = (\<lambda>c. case c of
                         glEnableVertexAttribArray i \<Rightarrow>
                           if i = 4294967295 then [1281] else []
                       | _ \<Rightarrow> [])\<rparr>"

definition ex_world :: world where
  "ex_world = \<lparr>heap = [0 \<mapsto> 3], next_addr = 1, gl_errors = [1280], trace = []\<rparr>"

definition ex_OESShader :: OESShader where
  "ex_OESShader =
     \<lparr>OESShader.program = Some 0, a_position = 0, a_tex_coord = - 1, u_mvp = 0,
      u_texture = - 1, u_color = - 1, u_opacity = - 1\<rparr>"

definition ex_UnlitVerticalStereoShader :: UnlitVerticalStereoShader where
  "ex_UnlitVerticalStereoShader =
     \<lparr>UnlitVerticalStereoShader.program = Some 0, a_position = 0, a_tex_coord = - 1,
      u_mvp = 0, u_texture = - 1, u_color = - 1, u_opacity = - 1, u_right = - 1\<rparr>"

definition ex_CubemapShader :: CubemapShader where
  "ex_CubemapShader =
     \<lparr>CubemapShader.program = Some 0, a_position = 0, u_model = - 1, u_mvp = 0,
      u_texture = - 1, u_color = - 1, u_opacity = - 1\<rparr>"

definition ex_CubemapReflectionShader :: CubemapReflectionShader where
  "ex_CubemapReflectionShader =
     \<lparr>CubemapReflectionShader.program = Some 0, a_position = 0, a_normal = - 1,
      u_mv = - 1, u_mv_it = - 1, u_mvp = 0, u_view_i = - 1,
      u_texture = - 1, u_color = - 1, u_opacity = - 1\<rparr>"

text \<open>A view-inverse matrix that moves the camera one unit along x.\<close>

definition ex_view_i :: mat4 where
  "ex_view_i = mat4 (vec4 1 0 0 0) (vec4 0 1 0 0) (vec4 0 0 1 0) (vec4 1 0 0 1)"

section \<open>Properties\<close>

subsection \<open>Runs, reads and the trace\<close>

lemma step_eq:
  "step drv ev w = w\<lparr>gl_errors := gl_errors w @ raised drv ev, trace := trace w @ [ev]\<rparr>"
  by (cases ev) (simp_all add: step_def gl_def tell_def raised_def)

lemma run_eq:
  "run drv evs w =
     w\<lparr>gl_errors := gl_errors w @ concat (map (raised drv) evs), trace := trace w @ evs\<rparr>"
  by (induction evs arbitrary: w) (simp_all add: step_eq)

lemma read_inputs_returns:
  "inputs rd t c a \<Longrightarrow>
     read_inputs rd w = (Inr (mesh rd, t, c, a), w\<lparr>trace := trace w @ material_reads\<rparr>)"
  by (simp add: inputs_def read_inputs_def tell_def material_reads_def)

lemma read_inputs_no_texture:
  "getTexture (material rd) MAIN_TEXTURE = Inl e \<Longrightarrow>
     read_inputs rd w =
       (Inl e, w\<lparr>trace := trace w @ [RenderData_mesh, Material_getTexture MAIN_TEXTURE]\<rparr>)"
  by (simp add: read_inputs_def tell_def)

lemma read_inputs_no_color:
  "getTexture (material rd) MAIN_TEXTURE = Inr t \<Longrightarrow> getVec3 (material rd) COLOR = Inl e \<Longrightarrow>
     read_inputs rd w =
       (Inl e, w\<lparr>trace := trace w @ [RenderData_mesh, Material_getTexture MAIN_TEXTURE,
                                       Material_getVec3 COLOR]\<rparr>)"
  by (simp add: read_inputs_def tell_def)

lemma read_inputs_no_opacity:
  "getTexture (material rd) MAIN_TEXTURE = Inr t \<Longrightarrow> getVec3 (material rd) COLOR = Inr c \<Longrightarrow>
   getFloat (material rd) OPACITY = Inl e \<Longrightarrow>
     read_inputs rd w = (Inl e, w\<lparr>trace := trace w @ material_reads\<rparr>)"
  by (simp add: read_inputs_def tell_def material_reads_def)

text \<open>
  Once the texture is there, the opening statements either throw, having issued no GL
  command, or deliver all three inputs.
\<close>

lemma read_inputs_texture:
  assumes "getTexture (material rd) MAIN_TEXTURE = Inr t"
  shows "(\<exists>e evs. read_inputs rd w = (Inl e, w\<lparr>trace := trace w @ evs\<rparr>) \<and> filter is_gl evs = [])
       \<or> (\<exists>c a. inputs rd t c a)"
  using assms
  by (cases "getVec3 (material rd) COLOR"; cases "getFloat (material rd) OPACITY")
     (auto simp add: read_inputs_def tell_def inputs_def)

text \<open>
  The opening statements do the same in every world: they add their events to the trace,
  none of them a GL command, and touch nothing else.
\<close>

lemma read_inputs_frame:
  "\<exists>r evs. (\<forall>w. read_inputs rd w = (r, w\<lparr>trace := trace w @ evs\<rparr>)) \<and>
     filter is_gl evs = [] \<and> filter is_location_query evs = []"
proof (cases "getTexture (material rd) MAIN_TEXTURE")
  case (Inl e)
  then show ?thesis
    by (intro exI [of _ "Inl e"] exI [of _ "[RenderData_mesh, Material_getTexture MAIN_TEXTURE]"])
       (simp add: read_inputs_no_texture)
next
  case tex: (Inr t)
  show ?thesis
  proof (cases "getVec3 (material rd) COLOR")
    case (Inl e)
    with tex show ?thesis
      by (intro exI [of _ "Inl e"]
            exI [of _ "[RenderData_mesh, Material_getTexture MAIN_TEXTURE,
                        Material_getVec3 COLOR]"])
         (simp add: read_inputs_no_color)
  next
    case col: (Inr c)
    show ?thesis
    proof (cases "getFloat (material rd) OPACITY")
      case (Inl e)
      with tex col show ?thesis
        by (intro exI [of _ "Inl e"] exI [of _ material_reads])
           (simp add: read_inputs_no_opacity, simp add: material_reads_def)
    next
      case (Inr a)
      with tex col have "inputs rd t c a"
        by (simp add: inputs_def)
      then show ?thesis
        by (intro exI [of _ "Inr (mesh rd, t, c, a)"] exI [of _ material_reads])
           (simp add: read_inputs_returns, simp add: material_reads_def)
    qed
  qed
qed

lemma GLProgram_id_frame [simp]:
  "GLProgram_id p (w\<lparr>trace := tr\<rparr>) = GLProgram_id p w"
  "GLProgram_id p (w\<lparr>gl_errors := q\<rparr>) = GLProgram_id p w"
  by (simp_all add: GLProgram_id_def split: option.splits)

lemma live_id: "live p w \<Longrightarrow> \<exists>pid. GLProgram_id p w = Inr pid"
  by (auto simp add: live_def GLProgram_id_def split: option.splits)

lemma GLsizei_of_size_small: "n < 2147483648 \<Longrightarrow> GLsizei_of_size n = int n"
  by (simp add: GLsizei_of_size_def)

lemma filter_LOGI [simp]:
  "filter is_binding (map (LOGI op) es) = []"
  "filter is_gl (map (LOGI op) es) = []"
  "filter is_draw (map (LOGI op) es) = []"
  "filter is_location_query (map (LOGI op) es) = []"
  "filter is_log (map (LOGI op) es) = map (LOGI op) es"
  by (induction es) simp_all

lemmas ex_defs =
  ex_quad_def ex_texture_def ex_material_def ex_render_data_def ex_material_without_def
  ex_render_data_without_def ex_driver_def ex_world_def
  ex_OESShader_def ex_UnlitVerticalStereoShader_def ex_CubemapShader_def
  ex_CubemapReflectionShader_def ex_huge_mesh_def ex_huge_render_data_def identity_def
  inputs_def material_reads_def GLuint_of_GLint_def GLsizei_of_size_def

subsection \<open>A texture of the wrong target\<close>

text \<open>
  Claim C1. In every variant, a \<^verbatim>\<open>render\<close> whose material holds a texture of another
  target than the variant requires (\<^verbatim>\<open>GL_TEXTURE_EXTERNAL_OES\<close> for \<^verbatim>\<open>OESShader\<close>,
  \<^verbatim>\<open>GL_TEXTURE_2D\<close> for \<^verbatim>\<open>UnlitVerticalStereoShader\<close>, \<^verbatim>\<open>GL_TEXTURE_CUBE_MAP\<close> for the two
  cube-map shaders) fails and issues no GL command at all; and when the material's colour
  and opacity are there too, the failure is the thrown string "texture with wrong
  target" of that variant. Both build paths, any shader state, any world.
\<close>

theorem wrong_target_aborts_before_gpu:
  fixes g_oes drv_oes s_oes mvp_oes rd_oes w_oes
    g_st drv_st s_st mvp_st rd_st right_st w_st
    g_cm drv_cm s_cm model_cm mvp_cm rd_cm w_cm
    g_cr drv_cr s_cr mv_cr mv_it_cr view_i_cr mvp_cr rd_cr w_cr
  defines "R_oes \<equiv> OESShader_render g_oes drv_oes s_oes mvp_oes rd_oes w_oes"
    and "R_st \<equiv> UnlitVerticalStereoShader_render g_st drv_st s_st mvp_st rd_st right_st w_st"
    and "R_cm \<equiv> CubemapShader_render g_cm drv_cm s_cm model_cm mvp_cm rd_cm w_cm"
    and "R_cr \<equiv> CubemapReflectionShader_render g_cr drv_cr s_cr mv_cr mv_it_cr view_i_cr
                   mvp_cr rd_cr w_cr"
  shows
    "(getTexture (material rd_oes) MAIN_TEXTURE = Inr t_oes \<and>
      getTarget t_oes \<noteq> GL_TEXTURE_EXTERNAL_OES \<longrightarrow>
        isl (fst R_oes) \<and> gpu_commands w_oes (snd R_oes) = [] \<and>
        (inputs rd_oes t_oes c_oes a_oes \<longrightarrow>
           fst R_oes = Inl (Thrown ''OESShader::render : texture with wrong target''))) \<and>
     (getTexture (material rd_st) MAIN_TEXTURE = Inr t_st \<and>
      getTarget t_st \<noteq> GL_TEXTURE_2D \<longrightarrow>
        isl (fst R_st) \<and> gpu_commands w_st (snd R_st) = [] \<and>
        (inputs rd_st t_st c_st a_st \<longrightarrow>
           fst R_st =
             Inl (Thrown ''UnlitVerticalStereoShader::render : texture with wrong target''))) \<and>
     (getTexture (material rd_cm) MAIN_TEXTURE = Inr t_cm \<and>
      getTarget t_cm \<noteq> GL_TEXTURE_CUBE_MAP \<longrightarrow>
        isl (fst R_cm) \<and> gpu_commands w_cm (snd R_cm) = [] \<and>
        (inputs rd_cm t_cm c_cm a_cm \<longrightarrow>
           fst R_cm = Inl (Thrown ''CubemapShader::render : texture with wrong target''))) \<and>
     (getTexture (material rd_cr) MAIN_TEXTURE = Inr t_cr \<and>
      getTarget t_cr \<noteq> GL_TEXTURE_CUBE_MAP \<longrightarrow>
        isl (fst R_cr) \<and> gpu_commands w_cr (snd R_cr) = [] \<and>
        (inputs rd_cr t_cr c_cr a_cr \<longrightarrow>
           fst R_cr =
             Inl (Thrown ''CubemapReflectionShader::render : texture with wrong target'')))"
proof (intro conjI impI; elim conjE)
  note defs = gpu_commands_def emitted_def inputs_def read_inputs_returns material_reads_def
  {
    assume "getTexture (material rd_oes) MAIN_TEXTURE = Inr t_oes"
      and "getTarget t_oes \<noteq> GL_TEXTURE_EXTERNAL_OES"
    then have "isl (fst R_oes) \<and> gpu_commands w_oes (snd R_oes) = []"
      using read_inputs_texture [of rd_oes t_oes w_oes]
      by (auto simp add: R_oes_def OESShader_render_def defs)
    then show "isl (fst R_oes)" and "gpu_commands w_oes (snd R_oes) = []"
      by simp_all
  }
  {
    assume "getTexture (material rd_st) MAIN_TEXTURE = Inr t_st"
      and "getTarget t_st \<noteq> GL_TEXTURE_2D"
    then have "isl (fst R_st) \<and> gpu_commands w_st (snd R_st) = []"
      using read_inputs_texture [of rd_st t_st w_st]
      by (auto simp add: R_st_def UnlitVerticalStereoShader_render_def defs)
    then show "isl (fst R_st)" and "gpu_commands w_st (snd R_st) = []"
      by simp_all
  }
  {
    assume "getTexture (material rd_cm) MAIN_TEXTURE = Inr t_cm"
      and "getTarget t_cm \<noteq> GL_TEXTURE_CUBE_MAP"
    then have "isl (fst R_cm) \<and> gpu_commands w_cm (snd R_cm) = []"
      using read_inputs_texture [of rd_cm t_cm w_cm]
      by (auto simp add: R_cm_def CubemapShader_render_def defs)
    then show "isl (fst R_cm)" and "gpu_commands w_cm (snd R_cm) = []"
      by simp_all
  }
  {
    assume "getTexture (material rd_cr) MAIN_TEXTURE = Inr t_cr"
      and "getTarget t_cr \<noteq> GL_TEXTURE_CUBE_MAP"
    then have "isl (fst R_cr) \<and> gpu_commands w_cr (snd R_cr) = []"
      using read_inputs_texture [of rd_cr t_cr w_cr]
      by (auto simp add: R_cr_def CubemapReflectionShader_render_def defs)
    then show "isl (fst R_cr)" and "gpu_commands w_cr (snd R_cr) = []"
      by simp_all
  }
  show "fst R_oes = Inl (Thrown ''OESShader::render : texture with wrong target'')"
    if "inputs rd_oes t_oes c_oes a_oes" "getTarget t_oes \<noteq> GL_TEXTURE_EXTERNAL_OES"
    using that by (simp add: R_oes_def OESShader_render_def read_inputs_returns)
  show "fst R_st =
      Inl (Thrown ''UnlitVerticalStereoShader::render : texture with wrong target'')"
    if "inputs rd_st t_st c_st a_st" "getTarget t_st \<noteq> GL_TEXTURE_2D"
    using that by (simp add: R_st_def UnlitVerticalStereoShader_render_def read_inputs_returns)
  show "fst R_cm = Inl (Thrown ''CubemapShader::render : texture with wrong target'')"
    if "inputs rd_cm t_cm c_cm a_cm" "getTarget t_cm \<noteq> GL_TEXTURE_CUBE_MAP"
    using that by (simp add: R_cm_def CubemapShader_render_def read_inputs_returns)
  show "fst R_cr =
      Inl (Thrown ''CubemapReflectionShader::render : texture with wrong target'')"
    if "inputs rd_cr t_cr c_cr a_cr" "getTarget t_cr \<noteq> GL_TEXTURE_CUBE_MAP"
    using that
    by (simp add: R_cr_def CubemapReflectionShader_render_def read_inputs_returns)
qed

text \<open>
  The quad with a 2D texture given to the OES and the two cube-map shaders, and with a
  cube map given to the stereo shader: each throws its string, and the trace holds the
  four reads only.
\<close>

theorem wrong_target_aborts_before_gpu_witness:
  "getTexture (material (ex_render_data GL_TEXTURE_2D)) MAIN_TEXTURE =
     Inr (ex_texture GL_TEXTURE_2D) \<and>
   getTarget (ex_texture GL_TEXTURE_2D) \<noteq> GL_TEXTURE_EXTERNAL_OES \<and>
   getTarget (ex_texture GL_TEXTURE_2D) \<noteq> GL_TEXTURE_CUBE_MAP \<and>
   inputs (ex_render_data GL_TEXTURE_2D) (ex_texture GL_TEXTURE_2D) (vec3 1 1 1) 1 \<and>
   getTexture (material (ex_render_data GL_TEXTURE_CUBE_MAP)) MAIN_TEXTURE =
     Inr (ex_texture GL_TEXTURE_CUBE_MAP) \<and>
   getTarget (ex_texture GL_TEXTURE_CUBE_MAP) \<noteq> GL_TEXTURE_2D \<and>
   inputs (ex_render_data GL_TEXTURE_CUBE_MAP) (ex_texture GL_TEXTURE_CUBE_MAP) (vec3 1 1 1) 1 \<and>
   OESShader_render False ex_driver ex_OESShader identity (ex_render_data GL_TEXTURE_2D)
       ex_world =
     (Inl (Thrown ''OESShader::render : texture with wrong target''),
      ex_world\<lparr>trace := material_reads\<rparr>) \<and>
   UnlitVerticalStereoShader_render False ex_driver ex_UnlitVerticalStereoShader identity
       (ex_render_data GL_TEXTURE_CUBE_MAP) True ex_world =
     (Inl (Thrown ''UnlitVerticalStereoShader::render : texture with wrong target''),
      ex_world\<lparr>trace := material_reads\<rparr>) \<and>
   CubemapShader_render True ex_driver ex_CubemapShader identity identity
       (ex_render_data GL_TEXTURE_2D) ex_world =
     (Inl (Thrown ''CubemapShader::render : texture with wrong target''),
      ex_world\<lparr>trace := material_reads\<rparr>) \<and>
   CubemapReflectionShader_render True ex_driver ex_CubemapReflectionShader identity identity
       identity identity (ex_render_data GL_TEXTURE_2D) ex_world =
     (Inl (Thrown ''CubemapReflectionShader::render : texture with wrong target''),
      ex_world\<lparr>trace := material_reads\<rparr>) \<and>
   gpu_commands ex_world (ex_world\<lparr>trace := material_reads\<rparr>) = []"
  using wrong_target_aborts_before_gpu
    [where rd_oes = "ex_render_data GL_TEXTURE_2D" and t_oes = "ex_texture GL_TEXTURE_2D"
       and c_oes = "vec3 1 1 1" and a_oes = 1 and g_oes = False and drv_oes = ex_driver
       and s_oes = ex_OESShader and mvp_oes = identity and w_oes = ex_world
       and rd_st = "ex_render_data GL_TEXTURE_CUBE_MAP"
       and t_st = "ex_texture GL_TEXTURE_CUBE_MAP"
       and c_st = "vec3 1 1 1" and a_st = 1 and g_st = False and drv_st = ex_driver
       and s_st = ex_UnlitVerticalStereoShader and mvp_st = identity and right_st = True
       and w_st = ex_world
       and rd_cm = "ex_render_data GL_TEXTURE_2D" and t_cm = "ex_texture GL_TEXTURE_2D"
       and c_cm = "vec3 1 1 1" and a_cm = 1 and g_cm = True and drv_cm = ex_driver
       and s_cm = ex_CubemapShader and model_cm = identity and mvp_cm = identity
       and w_cm = ex_world
       and rd_cr = "ex_render_data GL_TEXTURE_2D" and t_cr = "ex_texture GL_TEXTURE_2D"
       and c_cr = "vec3 1 1 1" and a_cr = 1 and g_cr = True and drv_cr = ex_driver
       and s_cr = ex_CubemapReflectionShader and mv_cr = identity and mv_it_cr = identity
       and view_i_cr = identity and mvp_cr = identity and w_cr = ex_world]
  by (simp add: ex_defs OESShader_render_def UnlitVerticalStereoShader_render_def
        CubemapShader_render_def CubemapReflectionShader_render_def read_inputs_def tell_def
        gpu_commands_def emitted_def)

subsection \<open>The draw call\<close>

text \<open>
  Claim C2 says that the one draw call of a \<^verbatim>\<open>render\<close> with a texture of the required
  target has an index count equal to the length of the mesh's triangle indices. The count
  is a \<^verbatim>\<open>GLsizei\<close>: \<^verbatim>\<open>triangles().size()\<close> is narrowed to 32 bits and read as signed.

  The counterexample: for the mesh of \<open>2 ^ 31\<close> triangle indices, \<^verbatim>\<open>OESShader\<close> draws
  with the count \<open>- 2147483648\<close>.
\<close>

theorem draw_count_is_narrowed_counterexample:
  "inputs (ex_huge_render_data GL_TEXTURE_EXTERNAL_OES) (ex_texture GL_TEXTURE_EXTERNAL_OES)
     (vec3 1 1 1) 1 \<and>
   getTarget (ex_texture GL_TEXTURE_EXTERNAL_OES) = GL_TEXTURE_EXTERNAL_OES \<and>
   live (OESShader.program ex_OESShader) ex_world \<and>
   length (triangles (mesh (ex_huge_render_data GL_TEXTURE_EXTERNAL_OES))) = 2147483648 \<and>
   draw_calls ex_world
     (snd (OESShader_render True ex_driver ex_OESShader identity
             (ex_huge_render_data GL_TEXTURE_EXTERNAL_OES) ex_world)) =
     [GL (glDrawElements GL_TRIANGLES (- 2147483648) GL_UNSIGNED_SHORT (buffer_offset 0))]"
  by (simp add: ex_defs live_def draw_calls_def emitted_def read_inputs_def tell_def
        GLProgram_id_def run_eq checkGlError_def OESShader_render_def del: run.simps)

text \<open>
  Claim C2 as amended. In every variant, a \<^verbatim>\<open>render\<close> whose texture has the required
  target issues exactly one draw call: \<^verbatim>\<open>glDrawElements\<close> with mode \<^verbatim>\<open>GL_TRIANGLES\<close>, index
  type \<^verbatim>\<open>GL_UNSIGNED_SHORT\<close> and a count that is the length of the mesh's triangle
  indices converted to \<^verbatim>\<open>GLsizei\<close>: the length itself for a mesh of fewer than \<open>2 ^ 31\<close>
  triangle indices. The call is made on a shader whose program is live (\<^verbatim>\<open>render\<close> after
  \<^verbatim>\<open>recycle\<close> is undefined) and over a material whose three properties are there. The
  indices are read from the bound buffer in the vertex-array-object path, from the client
  array otherwise.
\<close>

theorem matching_target_draws_once:
  fixes
    g_oes drv_oes s_oes mvp_oes rd_oes w_oes
    g_st drv_st s_st mvp_st rd_st right_st w_st
    g_cm drv_cm s_cm model_cm mvp_cm rd_cm w_cm
    g_cr drv_cr s_cr mv_cr mv_it_cr view_i_cr mvp_cr rd_cr w_cr
  defines "R_oes \<equiv> OESShader_render g_oes drv_oes s_oes mvp_oes rd_oes w_oes"
    and "R_st \<equiv> UnlitVerticalStereoShader_render g_st drv_st s_st mvp_st rd_st right_st w_st"
    and "R_cm \<equiv> CubemapShader_render g_cm drv_cm s_cm model_cm mvp_cm rd_cm w_cm"
    and "R_cr \<equiv> CubemapReflectionShader_render g_cr drv_cr s_cr mv_cr mv_it_cr view_i_cr mvp_cr rd_cr w_cr"
  shows
    "(inputs rd_oes t_oes c_oes a_oes \<and> getTarget t_oes = GL_TEXTURE_EXTERNAL_OES \<and>
      live (OESShader.program s_oes) w_oes \<longrightarrow>
        draw_calls w_oes (snd R_oes) =
          [GL (glDrawElements GL_TRIANGLES (GLsizei_of_size (length (triangles (mesh rd_oes))))
                 GL_UNSIGNED_SHORT
                 (if g_oes then buffer_offset 0
                  else index_data (triangles (mesh rd_oes))))] \<and>
        (length (triangles (mesh rd_oes)) < 2147483648 \<longrightarrow>
           draw_calls w_oes (snd R_oes) =
             [GL (glDrawElements GL_TRIANGLES (int (length (triangles (mesh rd_oes))))
                    GL_UNSIGNED_SHORT
                    (if g_oes then buffer_offset 0
                     else index_data (triangles (mesh rd_oes))))])) \<and>
     (inputs rd_st t_st c_st a_st \<and> getTarget t_st = GL_TEXTURE_2D \<and>
      live (UnlitVerticalStereoShader.program s_st) w_st \<longrightarrow>
        draw_calls w_st (snd R_st) =
          [GL (glDrawElements GL_TRIANGLES (GLsizei_of_size (length (triangles (mesh rd_st))))
                 GL_UNSIGNED_SHORT
                 (if g_st then buffer_offset 0
                  else index_data (triangles (mesh rd_st))))] \<and>
        (length (triangles (mesh rd_st)) < 2147483648 \<longrightarrow>
           draw_calls w_st (snd R_st) =
             [GL (glDrawElements GL_TRIANGLES (int (length (triangles (mesh rd_st))))
                    GL_UNSIGNED_SHORT
                    (if g_st then buffer_offset 0
                     else index_data (triangles (mesh rd_st))))])) \<and>
     (inputs rd_cm t_cm c_cm a_cm \<and> getTarget t_cm = GL_TEXTURE_CUBE_MAP \<and>
      live (CubemapShader.program s_cm) w_cm \<longrightarrow>
        draw_calls w_cm (snd R_cm) =
          [GL (glDrawElements GL_TRIANGLES (GLsizei_of_size (length (triangles (mesh rd_cm))))
                 GL_UNSIGNED_SHORT
                 (if g_cm then buffer_offset 0
                  else index_data (triangles (mesh rd_cm))))] \<and>
        (length (triangles (mesh rd_cm)) < 2147483648 \<longrightarrow>
           draw_calls w_cm (snd R_cm) =
             [GL (glDrawElements GL_TRIANGLES (int (length (triangles (mesh rd_cm))))
                    GL_UNSIGNED_SHORT
                    (if g_cm then buffer_offset 0
                     else index_data (triangles (mesh rd_cm))))])) \<and>
     (inputs rd_cr t_cr c_cr a_cr \<and> getTarget t_cr = GL_TEXTURE_CUBE_MAP \<and>
      live (CubemapReflectionShader.program s_cr) w_cr \<longrightarrow>
        draw_calls w_cr (snd R_cr) =
          [GL (glDrawElements GL_TRIANGLES (GLsizei_of_size (length (triangles (mesh rd_cr))))
                 GL_UNSIGNED_SHORT
                 (if g_cr then buffer_offset 0
                  else index_data (triangles (mesh rd_cr))))] \<and>
        (length (triangles (mesh rd_cr)) < 2147483648 \<longrightarrow>
           draw_calls w_cr (snd R_cr) =
             [GL (glDrawElements GL_TRIANGLES (int (length (triangles (mesh rd_cr))))
                    GL_UNSIGNED_SHORT
                    (if g_cr then buffer_offset 0
                     else index_data (triangles (mesh rd_cr))))]))"
proof (intro conjI impI; (elim conjE)?)
  note ok = read_inputs_returns run_eq checkGlError_def draw_calls_def emitted_def
    material_reads_def
  {
    assume "inputs rd_oes t_oes c_oes a_oes" and "getTarget t_oes = GL_TEXTURE_EXTERNAL_OES"
      and "live (OESShader.program s_oes) w_oes"
    moreover from this obtain pid where
      "GLProgram_id (OESShader.program s_oes) w_oes = Inr pid"
      using live_id by blast
    ultimately show general: "draw_calls w_oes (snd R_oes) =
      [GL (glDrawElements GL_TRIANGLES (GLsizei_of_size (length (triangles (mesh rd_oes))))
             GL_UNSIGNED_SHORT
             (if g_oes then buffer_offset 0
              else index_data (triangles (mesh rd_oes))))]"
      by (simp add: R_oes_def OESShader_render_def ok del: run.simps)
    show "draw_calls w_oes (snd R_oes) =
      [GL (glDrawElements GL_TRIANGLES (int (length (triangles (mesh rd_oes))))
             GL_UNSIGNED_SHORT
             (if g_oes then buffer_offset 0
              else index_data (triangles (mesh rd_oes))))]"
      if "length (triangles (mesh rd_oes)) < 2147483648"
      using general that by (simp add: GLsizei_of_size_small)
  }
  {
    assume "inputs rd_st t_st c_st a_st" and "getTarget t_st = GL_TEXTURE_2D"
      and "live (UnlitVerticalStereoShader.program s_st) w_st"
    moreover from this obtain pid where
      "GLProgram_id (UnlitVerticalStereoShader.program s_st) w_st = Inr pid"
      using live_id by blast
    ultimately show general: "draw_calls w_st (snd R_st) =
      [GL (glDrawElements GL_TRIANGLES (GLsizei_of_size (length (triangles (mesh rd_st))))
             GL_UNSIGNED_SHORT
             (if g_st then buffer_offset 0
              else index_data (triangles (mesh rd_st))))]"
      by (simp add: R_st_def UnlitVerticalStereoShader_render_def ok del: run.simps)
    show "draw_calls w_st (snd R_st) =
      [GL (glDrawElements GL_TRIANGLES (int (length (triangles (mesh rd_st))))
             GL_UNSIGNED_SHORT
             (if g_st then buffer_offset 0
              else index_data (triangles (mesh rd_st))))]"
      if "length (triangles (mesh rd_st)) < 2147483648"
      using general that by (simp add: GLsizei_of_size_small)
  }
  {
    assume "inputs rd_cm t_cm c_cm a_cm" and "getTarget t_cm = GL_TEXTURE_CUBE_MAP"
      and "live (CubemapShader.program s_cm) w_cm"
    moreover from this obtain pid where
      "GLProgram_id (CubemapShader.program s_cm) w_cm = Inr pid"
      using live_id by blast
    ultimately show general: "draw_calls w_cm (snd R_cm) =
      [GL (glDrawElements GL_TRIANGLES (GLsizei_of_size (length (triangles (mesh rd_cm))))
             GL_UNSIGNED_SHORT
             (if g_cm then buffer_offset 0
              else index_data (triangles (mesh rd_cm))))]"
      by (simp add: R_cm_def CubemapShader_render_def ok del: run.simps)
    show "draw_calls w_cm (snd R_cm) =
      [GL (glDrawElements GL_TRIANGLES (int (length (triangles (mesh rd_cm))))
             GL_UNSIGNED_SHORT
             (if g_cm then buffer_offset 0
              else index_data (triangles (mesh rd_cm))))]"
      if "length (triangles (mesh rd_cm)) < 2147483648"
      using general that by (simp add: GLsizei_of_size_small)
  }
  {
    assume "inputs rd_cr t_cr c_cr a_cr" and "getTarget t_cr = GL_TEXTURE_CUBE_MAP"
      and "live (CubemapReflectionShader.program s_cr) w_cr"
    moreover from this obtain pid where
      "GLProgram_id (CubemapReflectionShader.program s_cr) w_cr = Inr pid"
      using live_id by blast
    ultimately show general: "draw_calls w_cr (snd R_cr) =
      [GL (glDrawElements GL_TRIANGLES (GLsizei_of_size (length (triangles (mesh rd_cr))))
             GL_UNSIGNED_SHORT
             (if g_cr then buffer_offset 0
              else index_data (triangles (mesh rd_cr))))]"
      by (simp add: R_cr_def CubemapReflectionShader_render_def ok del: run.simps)
    show "draw_calls w_cr (snd R_cr) =
      [GL (glDrawElements GL_TRIANGLES (int (length (triangles (mesh rd_cr))))
             GL_UNSIGNED_SHORT
             (if g_cr then buffer_offset 0
              else index_data (triangles (mesh rd_cr))))]"
      if "length (triangles (mesh rd_cr)) < 2147483648"
      using general that by (simp add: GLsizei_of_size_small)
  }
qed

text \<open>
  The quad with a texture of the right target for each variant: one draw call of 6
  indices, from the client array in the attribute-pointer path.
\<close>

theorem matching_target_draws_once_witness:
  "inputs (ex_render_data GL_TEXTURE_EXTERNAL_OES) (ex_texture GL_TEXTURE_EXTERNAL_OES) (vec3 1 1 1) 1 \<and>
   getTarget (ex_texture GL_TEXTURE_EXTERNAL_OES) = GL_TEXTURE_EXTERNAL_OES \<and>
   inputs (ex_render_data GL_TEXTURE_2D) (ex_texture GL_TEXTURE_2D) (vec3 1 1 1) 1 \<and>
   getTarget (ex_texture GL_TEXTURE_2D) = GL_TEXTURE_2D \<and>
   inputs (ex_render_data GL_TEXTURE_CUBE_MAP) (ex_texture GL_TEXTURE_CUBE_MAP) (vec3 1 1 1) 1 \<and>
   getTarget (ex_texture GL_TEXTURE_CUBE_MAP) = GL_TEXTURE_CUBE_MAP \<and>
   live (Some 0) ex_world \<and>
   length (triangles (mesh (ex_render_data GL_TEXTURE_2D))) < 2147483648 \<and>
   draw_calls ex_world
     (snd (OESShader_render False ex_driver ex_OESShader identity (ex_render_data GL_TEXTURE_EXTERNAL_OES) ex_world)) =
     [GL (glDrawElements GL_TRIANGLES 6 GL_UNSIGNED_SHORT (index_data [0, 1, 2, 1, 3, 2]))] \<and>
   draw_calls ex_world
     (snd (UnlitVerticalStereoShader_render False ex_driver ex_UnlitVerticalStereoShader identity (ex_render_data GL_TEXTURE_2D) True ex_world)) =
     [GL (glDrawElements GL_TRIANGLES 6 GL_UNSIGNED_SHORT (index_data [0, 1, 2, 1, 3, 2]))] \<and>
   draw_calls ex_world
     (snd (CubemapShader_render True ex_driver ex_CubemapShader identity identity (ex_render_data GL_TEXTURE_CUBE_MAP) ex_world)) =
     [GL (glDrawElements GL_TRIANGLES 6 GL_UNSIGNED_SHORT (buffer_offset 0))] \<and>
   draw_calls ex_world
     (snd (CubemapReflectionShader_render True ex_driver ex_CubemapReflectionShader identity identity identity identity (ex_render_data GL_TEXTURE_CUBE_MAP) ex_world)) =
     [GL (glDrawElements GL_TRIANGLES 6 GL_UNSIGNED_SHORT (buffer_offset 0))]"
  using matching_target_draws_once
    [where g_oes = False and drv_oes = ex_driver and s_oes = ex_OESShader and w_oes = ex_world
       and mvp_oes = identity
       and rd_oes = "ex_render_data GL_TEXTURE_EXTERNAL_OES" and t_oes = "ex_texture GL_TEXTURE_EXTERNAL_OES"
       and c_oes = "vec3 1 1 1" and a_oes = 1
       and g_st = False and drv_st = ex_driver and s_st = ex_UnlitVerticalStereoShader and w_st = ex_world
       and mvp_st = identity and right_st = True
       and rd_st = "ex_render_data GL_TEXTURE_2D" and t_st = "ex_texture GL_TEXTURE_2D"
       and c_st = "vec3 1 1 1" and a_st = 1
       and g_cm = True and drv_cm = ex_driver and s_cm = ex_CubemapShader and w_cm = ex_world
       and model_cm = identity and mvp_cm = identity
       and rd_cm = "ex_render_data GL_TEXTURE_CUBE_MAP" and t_cm = "ex_texture GL_TEXTURE_CUBE_MAP"
       and c_cm = "vec3 1 1 1" and a_cm = 1
       and g_cr = True and drv_cr = ex_driver and s_cr = ex_CubemapReflectionShader and w_cr = ex_world
       and mv_cr = identity and mv_it_cr = identity and view_i_cr = identity and mvp_cr = identity
       and rd_cr = "ex_render_data GL_TEXTURE_CUBE_MAP" and t_cr = "ex_texture GL_TEXTURE_CUBE_MAP"
       and c_cr = "vec3 1 1 1" and a_cr = 1]
  by (simp add: ex_defs live_def draw_calls_def emitted_def read_inputs_def tell_def
        GLProgram_id_def run_eq checkGlError_def OESShader_render_def
        UnlitVerticalStereoShader_render_def CubemapShader_render_def
        CubemapReflectionShader_render_def del: run.simps)

subsection \<open>The check for GL errors\<close>

text \<open>
  Claim C8. In every variant, a \<^verbatim>\<open>render\<close> that passes the target test (on a live
  program, over a material whose properties are there) returns normally whatever the GL
  reports: for every driver and every set of pending error flags, the result is a normal
  return, and the flags that were pending or were raised by the GL commands of this call
  are logged under the label of the variant, in order, and cleared. Moreover, for any
  call whatever, the outcome of \<^verbatim>\<open>render\<close> (normal return or which failure) is the same
  under any other driver and any other pending flags: no GL error changes the control flow
  or becomes a failure.
\<close>

theorem gl_errors_are_logged_not_propagated:
  fixes
    g_oes drv_oes s_oes mvp_oes rd_oes w_oes drv'_oes q_oes
    g_st drv_st s_st mvp_st rd_st right_st w_st drv'_st q_st
    g_cm drv_cm s_cm model_cm mvp_cm rd_cm w_cm drv'_cm q_cm
    g_cr drv_cr s_cr mv_cr mv_it_cr view_i_cr mvp_cr rd_cr w_cr drv'_cr q_cr
  defines "R_oes \<equiv> OESShader_render g_oes drv_oes s_oes mvp_oes rd_oes w_oes"
    and "R_st \<equiv> UnlitVerticalStereoShader_render g_st drv_st s_st mvp_st rd_st right_st w_st"
    and "R_cm \<equiv> CubemapShader_render g_cm drv_cm s_cm model_cm mvp_cm rd_cm w_cm"
    and "R_cr \<equiv> CubemapReflectionShader_render g_cr drv_cr s_cr mv_cr mv_it_cr view_i_cr mvp_cr rd_cr w_cr"
  shows
    "(inputs rd_oes t_oes c_oes a_oes \<and> getTarget t_oes = GL_TEXTURE_EXTERNAL_OES \<and>
      live (OESShader.program s_oes) w_oes \<longrightarrow>
        fst R_oes = Inr () \<and> gl_errors (snd R_oes) = [] \<and>
        log_lines w_oes (snd R_oes) =
          map (LOGI ''OESShader::render'')
            (gl_errors w_oes @
             concat (map (raised drv_oes) (gpu_commands w_oes (snd R_oes))))) \<and>
     fst R_oes =
      fst (OESShader_render g_oes drv'_oes s_oes mvp_oes rd_oes
          (w_oes\<lparr>gl_errors := q_oes\<rparr>)) \<and>
     (inputs rd_st t_st c_st a_st \<and> getTarget t_st = GL_TEXTURE_2D \<and>
      live (UnlitVerticalStereoShader.program s_st) w_st \<longrightarrow>
        fst R_st = Inr () \<and> gl_errors (snd R_st) = [] \<and>
        log_lines w_st (snd R_st) =
          map (LOGI ''UnlitShader::render'')
            (gl_errors w_st @
             concat (map (raised drv_st) (gpu_commands w_st (snd R_st))))) \<and>
     fst R_st =
      fst (UnlitVerticalStereoShader_render g_st drv'_st s_st mvp_st rd_st right_st
          (w_st\<lparr>gl_errors := q_st\<rparr>)) \<and>
     (inputs rd_cm t_cm c_cm a_cm \<and> getTarget t_cm = GL_TEXTURE_CUBE_MAP \<and>
      live (CubemapShader.program s_cm) w_cm \<longrightarrow>
        fst R_cm = Inr () \<and> gl_errors (snd R_cm) = [] \<and>
        log_lines w_cm (snd R_cm) =
          map (LOGI ''CubemapShader::render'')
            (gl_errors w_cm @
             concat (map (raised drv_cm) (gpu_commands w_cm (snd R_cm))))) \<and>
     fst R_cm =
      fst (CubemapShader_render g_cm drv'_cm s_cm model_cm mvp_cm rd_cm
          (w_cm\<lparr>gl_errors := q_cm\<rparr>)) \<and>
     (inputs rd_cr t_cr c_cr a_cr \<and> getTarget t_cr = GL_TEXTURE_CUBE_MAP \<and>
      live (CubemapReflectionShader.program s_cr) w_cr \<longrightarrow>
        fst R_cr = Inr () \<and> gl_errors (snd R_cr) = [] \<and>
        log_lines w_cr (snd R_cr) =
          map (LOGI ''CubemapReflectionShader::render'')
            (gl_errors w_cr @
             concat (map (raised drv_cr) (gpu_commands w_cr (snd R_cr))))) \<and>
     fst R_cr =
      fst (CubemapReflectionShader_render g_cr drv'_cr s_cr mv_cr mv_it_cr view_i_cr mvp_cr rd_cr
          (w_cr\<lparr>gl_errors := q_cr\<rparr>))"
proof (intro conjI impI; (elim conjE)?)
  note ok = read_inputs_returns run_eq checkGlError_def log_lines_def gpu_commands_def
    emitted_def material_reads_def raised_def
  {
    assume "inputs rd_oes t_oes c_oes a_oes" and "getTarget t_oes = GL_TEXTURE_EXTERNAL_OES"
      and "live (OESShader.program s_oes) w_oes"
    moreover from this obtain pid where
      "GLProgram_id (OESShader.program s_oes) w_oes = Inr pid"
      using live_id by blast
    ultimately have "fst R_oes = Inr () \<and> gl_errors (snd R_oes) = [] \<and>
      log_lines w_oes (snd R_oes) =
        map (LOGI ''OESShader::render'')
          (gl_errors w_oes @
           concat (map (raised drv_oes) (gpu_commands w_oes (snd R_oes))))"
      by (simp add: R_oes_def OESShader_render_def ok del: run.simps)
    then show "fst R_oes = Inr ()" and "gl_errors (snd R_oes) = []"
      and "log_lines w_oes (snd R_oes) =
        map (LOGI ''OESShader::render'')
          (gl_errors w_oes @
           concat (map (raised drv_oes) (gpu_commands w_oes (snd R_oes))))"
      by simp_all
  }
  {
    assume "inputs rd_st t_st c_st a_st" and "getTarget t_st = GL_TEXTURE_2D"
      and "live (UnlitVerticalStereoShader.program s_st) w_st"
    moreover from this obtain pid where
      "GLProgram_id (UnlitVerticalStereoShader.program s_st) w_st = Inr pid"
      using live_id by blast
    ultimately have "fst R_st = Inr () \<and> gl_errors (snd R_st) = [] \<and>
      log_lines w_st (snd R_st) =
        map (LOGI ''UnlitShader::render'')
          (gl_errors w_st @
           concat (map (raised drv_st) (gpu_commands w_st (snd R_st))))"
      by (simp add: R_st_def UnlitVerticalStereoShader_render_def ok del: run.simps)
    then show "fst R_st = Inr ()" and "gl_errors (snd R_st) = []"
      and "log_lines w_st (snd R_st) =
        map (LOGI ''UnlitShader::render'')
          (gl_errors w_st @
           concat (map (raised drv_st) (gpu_commands w_st (snd R_st))))"
      by simp_all
  }
  {
    assume "inputs rd_cm t_cm c_cm a_cm" and "getTarget t_cm = GL_TEXTURE_CUBE_MAP"
      and "live (CubemapShader.program s_cm) w_cm"
    moreover from this obtain pid where
      "GLProgram_id (CubemapShader.program s_cm) w_cm = Inr pid"
      using live_id by blast
    ultimately have "fst R_cm = Inr () \<and> gl_errors (snd R_cm) = [] \<and>
      log_lines w_cm (snd R_cm) =
        map (LOGI ''CubemapShader::render'')
          (gl_errors w_cm @
           concat (map (raised drv_cm) (gpu_commands w_cm (snd R_cm))))"
      by (simp add: R_cm_def CubemapShader_render_def ok del: run.simps)
    then show "fst R_cm = Inr ()" and "gl_errors (snd R_cm) = []"
      and "log_lines w_cm (snd R_cm) =
        map (LOGI ''CubemapShader::render'')
          (gl_errors w_cm @
           concat (map (raised drv_cm) (gpu_commands w_cm (snd R_cm))))"
      by simp_all
  }
  {
    assume "inputs rd_cr t_cr c_cr a_cr" and "getTarget t_cr = GL_TEXTURE_CUBE_MAP"
      and "live (CubemapReflectionShader.program s_cr) w_cr"
    moreover from this obtain pid where
      "GLProgram_id (CubemapReflectionShader.program s_cr) w_cr = Inr pid"
      using live_id by blast
    ultimately have "fst R_cr = Inr () \<and> gl_errors (snd R_cr) = [] \<and>
      log_lines w_cr (snd R_cr) =
        map (LOGI ''CubemapReflectionShader::render'')
          (gl_errors w_cr @
           concat (map (raised drv_cr) (gpu_commands w_cr (snd R_cr))))"
      by (simp add: R_cr_def CubemapReflectionShader_render_def ok del: run.simps)
    then show "fst R_cr = Inr ()" and "gl_errors (snd R_cr) = []"
      and "log_lines w_cr (snd R_cr) =
        map (LOGI ''CubemapReflectionShader::render'')
          (gl_errors w_cr @
           concat (map (raised drv_cr) (gpu_commands w_cr (snd R_cr))))"
      by simp_all
  }
  show "fst R_oes =
      fst (OESShader_render g_oes drv'_oes s_oes mvp_oes rd_oes
          (w_oes\<lparr>gl_errors := q_oes\<rparr>))"
  proof -
    obtain r evs where reads: "\<And>w. read_inputs rd_oes w = (r, w\<lparr>trace := trace w @ evs\<rparr>)"
      using read_inputs_frame [of rd_oes] by blast
    show ?thesis
      by (cases r)
         (auto simp add: R_oes_def OESShader_render_def reads run_eq
            split: sum.splits simp del: run.simps)
  qed
  show "fst R_st =
      fst (UnlitVerticalStereoShader_render g_st drv'_st s_st mvp_st rd_st right_st
          (w_st\<lparr>gl_errors := q_st\<rparr>))"
  proof -
    obtain r evs where reads: "\<And>w. read_inputs rd_st w = (r, w\<lparr>trace := trace w @ evs\<rparr>)"
      using read_inputs_frame [of rd_st] by blast
    show ?thesis
      by (cases r)
         (auto simp add: R_st_def UnlitVerticalStereoShader_render_def reads run_eq
            split: sum.splits simp del: run.simps)
  qed
  show "fst R_cm =
      fst (CubemapShader_render g_cm drv'_cm s_cm model_cm mvp_cm rd_cm
          (w_cm\<lparr>gl_errors := q_cm\<rparr>))"
  proof -
    obtain r evs where reads: "\<And>w. read_inputs rd_cm w = (r, w\<lparr>trace := trace w @ evs\<rparr>)"
      using read_inputs_frame [of rd_cm] by blast
    show ?thesis
      by (cases r)
         (auto simp add: R_cm_def CubemapShader_render_def reads run_eq
            split: sum.splits simp del: run.simps)
  qed
  show "fst R_cr =
      fst (CubemapReflectionShader_render g_cr drv'_cr s_cr mv_cr mv_it_cr view_i_cr mvp_cr rd_cr
          (w_cr\<lparr>gl_errors := q_cr\<rparr>))"
  proof -
    obtain r evs where reads: "\<And>w. read_inputs rd_cr w = (r, w\<lparr>trace := trace w @ evs\<rparr>)"
      using read_inputs_frame [of rd_cr] by blast
    show ?thesis
      by (cases r)
         (auto simp add: R_cr_def CubemapReflectionShader_render_def reads run_eq
            split: sum.splits simp del: run.simps)
  qed
qed

text \<open>
  The quad drawn by each variant in a world where \<^verbatim>\<open>GL_INVALID_ENUM\<close> (1280) is pending,
  on a GL that flags \<^verbatim>\<open>GL_INVALID_VALUE\<close> (1281) when the attribute-pointer path enables
  the array of the unresolved \<^verbatim>\<open>a_tex_coord\<close>: \<^verbatim>\<open>render\<close> returns, with both flags
  logged.
\<close>

theorem gl_errors_are_logged_not_propagated_witness:
  "inputs (ex_render_data GL_TEXTURE_EXTERNAL_OES) (ex_texture GL_TEXTURE_EXTERNAL_OES) (vec3 1 1 1) 1 \<and>
   getTarget (ex_texture GL_TEXTURE_EXTERNAL_OES) = GL_TEXTURE_EXTERNAL_OES \<and>
   inputs (ex_render_data GL_TEXTURE_2D) (ex_texture GL_TEXTURE_2D) (vec3 1 1 1) 1 \<and>
   getTarget (ex_texture GL_TEXTURE_2D) = GL_TEXTURE_2D \<and>
   inputs (ex_render_data GL_TEXTURE_CUBE_MAP) (ex_texture GL_TEXTURE_CUBE_MAP) (vec3 1 1 1) 1 \<and>
   getTarget (ex_texture GL_TEXTURE_CUBE_MAP) = GL_TEXTURE_CUBE_MAP \<and>
   live (Some 0) ex_world \<and>
   fst (OESShader_render False ex_driver ex_OESShader identity (ex_render_data GL_TEXTURE_EXTERNAL_OES) ex_world) =
     Inr () \<and>
   log_lines ex_world
     (snd (OESShader_render False ex_driver ex_OESShader identity (ex_render_data GL_TEXTURE_EXTERNAL_OES) ex_world)) =
     [LOGI ''OESShader::render'' 1280, LOGI ''OESShader::render'' 1281] \<and>
   fst (UnlitVerticalStereoShader_render False ex_driver ex_UnlitVerticalStereoShader identity (ex_render_data GL_TEXTURE_2D) True ex_world) =
     Inr () \<and>
   log_lines ex_world
     (snd (UnlitVerticalStereoShader_render False ex_driver ex_UnlitVerticalStereoShader identity (ex_render_data GL_TEXTURE_2D) True ex_world)) =
     [LOGI ''UnlitShader::render'' 1280, LOGI ''UnlitShader::render'' 1281] \<and>
   fst (CubemapShader_render True ex_driver ex_CubemapShader identity identity (ex_render_data GL_TEXTURE_CUBE_MAP) ex_world) =
     Inr () \<and>
   log_lines ex_world
     (snd (CubemapShader_render True ex_driver ex_CubemapShader identity identity (ex_render_data GL_TEXTURE_CUBE_MAP) ex_world)) =
     [LOGI ''CubemapShader::render'' 1280] \<and>
   fst (CubemapReflectionShader_render True ex_driver ex_CubemapReflectionShader identity identity identity identity (ex_render_data GL_TEXTURE_CUBE_MAP) ex_world) =
     Inr () \<and>
   log_lines ex_world
     (snd (CubemapReflectionShader_render True ex_driver ex_CubemapReflectionShader identity identity identity identity (ex_render_data GL_TEXTURE_CUBE_MAP) ex_world)) =
     [LOGI ''CubemapReflectionShader::render'' 1280]"
  using gl_errors_are_logged_not_propagated
    [where g_oes = False and drv_oes = ex_driver and s_oes = ex_OESShader and w_oes = ex_world
       and mvp_oes = identity
       and rd_oes = "ex_render_data GL_TEXTURE_EXTERNAL_OES" and t_oes = "ex_texture GL_TEXTURE_EXTERNAL_OES"
       and c_oes = "vec3 1 1 1" and a_oes = 1
       and g_st = False and drv_st = ex_driver and s_st = ex_UnlitVerticalStereoShader and w_st = ex_world
       and mvp_st = identity and right_st = True
       and rd_st = "ex_render_data GL_TEXTURE_2D" and t_st = "ex_texture GL_TEXTURE_2D"
       and c_st = "vec3 1 1 1" and a_st = 1
       and g_cm = True and drv_cm = ex_driver and s_cm = ex_CubemapShader and w_cm = ex_world
       and model_cm = identity and mvp_cm = identity
       and rd_cm = "ex_render_data GL_TEXTURE_CUBE_MAP" and t_cm = "ex_texture GL_TEXTURE_CUBE_MAP"
       and c_cm = "vec3 1 1 1" and a_cm = 1
       and g_cr = True and drv_cr = ex_driver and s_cr = ex_CubemapReflectionShader and w_cr = ex_world
       and mv_cr = identity and mv_it_cr = identity and view_i_cr = identity and mvp_cr = identity
       and rd_cr = "ex_render_data GL_TEXTURE_CUBE_MAP" and t_cr = "ex_texture GL_TEXTURE_CUBE_MAP"
       and c_cr = "vec3 1 1 1" and a_cr = 1]
  by (simp add: ex_defs live_def log_lines_def gpu_commands_def emitted_def read_inputs_def
        tell_def GLProgram_id_def run_eq checkGlError_def raised_def OESShader_render_def
        UnlitVerticalStereoShader_render_def CubemapShader_render_def
        CubemapReflectionShader_render_def del: run.simps)

subsection \<open>The reads that precede the target test\<close>

text \<open>
  Claim C10. In every variant, \<^verbatim>\<open>render\<close> reads the mesh of the render data and calls
  \<^verbatim>\<open>getTexture(MAIN_TEXTURE)\<close>, \<^verbatim>\<open>getVec3(COLOR)\<close> and \<^verbatim>\<open>getFloat(OPACITY)\<close> on its
  material, in this order, before it tests the target of the texture: a call that aborts
  on a wrong target has made exactly these four reads; and what an accessor throws leaves
  \<^verbatim>\<open>render\<close> as it is, after the reads made so far, whatever the target of the texture
  (for \<^verbatim>\<open>getVec3\<close> and \<^verbatim>\<open>getFloat\<close>: also when the texture already read has the wrong
  target).
\<close>

theorem material_is_read_before_target_test:
  fixes
    g_oes drv_oes s_oes mvp_oes rd_oes w_oes
    g_st drv_st s_st mvp_st rd_st right_st w_st
    g_cm drv_cm s_cm model_cm mvp_cm rd_cm w_cm
    g_cr drv_cr s_cr mv_cr mv_it_cr view_i_cr mvp_cr rd_cr w_cr
  defines "R_oes \<equiv> OESShader_render g_oes drv_oes s_oes mvp_oes rd_oes w_oes"
    and "R_st \<equiv> UnlitVerticalStereoShader_render g_st drv_st s_st mvp_st rd_st right_st w_st"
    and "R_cm \<equiv> CubemapShader_render g_cm drv_cm s_cm model_cm mvp_cm rd_cm w_cm"
    and "R_cr \<equiv> CubemapReflectionShader_render g_cr drv_cr s_cr mv_cr mv_it_cr view_i_cr mvp_cr rd_cr w_cr"
  shows
    "(inputs rd_oes t_oes c_oes a_oes \<and> getTarget t_oes \<noteq> GL_TEXTURE_EXTERNAL_OES \<longrightarrow>
        R_oes =
          (Inl (Thrown ''OESShader::render : texture with wrong target''),
           w_oes\<lparr>trace := trace w_oes @ material_reads\<rparr>)) \<and>
     (getTexture (material rd_oes) MAIN_TEXTURE = Inl e_oes \<longrightarrow>
        R_oes =
          (Inl e_oes,
           w_oes\<lparr>trace := trace w_oes @
              [RenderData_mesh, Material_getTexture MAIN_TEXTURE]\<rparr>)) \<and>
     (getTexture (material rd_oes) MAIN_TEXTURE = Inr t_oes \<and>
      getVec3 (material rd_oes) COLOR = Inl e_oes \<longrightarrow>
        R_oes =
          (Inl e_oes,
           w_oes\<lparr>trace := trace w_oes @
              [RenderData_mesh, Material_getTexture MAIN_TEXTURE,
               Material_getVec3 COLOR]\<rparr>)) \<and>
     (getTexture (material rd_oes) MAIN_TEXTURE = Inr t_oes \<and>
      getVec3 (material rd_oes) COLOR = Inr c_oes \<and>
      getFloat (material rd_oes) OPACITY = Inl e_oes \<longrightarrow>
        R_oes = (Inl e_oes, w_oes\<lparr>trace := trace w_oes @ material_reads\<rparr>)) \<and>
     (inputs rd_st t_st c_st a_st \<and> getTarget t_st \<noteq> GL_TEXTURE_2D \<longrightarrow>
        R_st =
          (Inl (Thrown ''UnlitVerticalStereoShader::render : texture with wrong target''),
           w_st\<lparr>trace := trace w_st @ material_reads\<rparr>)) \<and>
     (getTexture (material rd_st) MAIN_TEXTURE = Inl e_st \<longrightarrow>
        R_st =
          (Inl e_st,
           w_st\<lparr>trace := trace w_st @
              [RenderData_mesh, Material_getTexture MAIN_TEXTURE]\<rparr>)) \<and>
     (getTexture (material rd_st) MAIN_TEXTURE = Inr t_st \<and>
      getVec3 (material rd_st) COLOR = Inl e_st \<longrightarrow>
        R_st =
          (Inl e_st,
           w_st\<lparr>trace := trace w_st @
              [RenderData_mesh, Material_getTexture MAIN_TEXTURE,
               Material_getVec3 COLOR]\<rparr>)) \<and>
     (getTexture (material rd_st) MAIN_TEXTURE = Inr t_st \<and>
      getVec3 (material rd_st) COLOR = Inr c_st \<and>
      getFloat (material rd_st) OPACITY = Inl e_st \<longrightarrow>
        R_st = (Inl e_st, w_st\<lparr>trace := trace w_st @ material_reads\<rparr>)) \<and>
     (inputs rd_cm t_cm c_cm a_cm \<and> getTarget t_cm \<noteq> GL_TEXTURE_CUBE_MAP \<longrightarrow>
        R_cm =
          (Inl (Thrown ''CubemapShader::render : texture with wrong target''),
           w_cm\<lparr>trace := trace w_cm @ material_reads\<rparr>)) \<and>
     (getTexture (material rd_cm) MAIN_TEXTURE = Inl e_cm \<longrightarrow>
        R_cm =
          (Inl e_cm,
           w_cm\<lparr>trace := trace w_cm @
              [RenderData_mesh, Material_getTexture MAIN_TEXTURE]\<rparr>)) \<and>
     (getTexture (material rd_cm) MAIN_TEXTURE = Inr t_cm \<and>
      getVec3 (material rd_cm) COLOR = Inl e_cm \<longrightarrow>
        R_cm =
          (Inl e_cm,
           w_cm\<lparr>trace := trace w_cm @
              [RenderData_mesh, Material_getTexture MAIN_TEXTURE,
               Material_getVec3 COLOR]\<rparr>)) \<and>
     (getTexture (material rd_cm) MAIN_TEXTURE = Inr t_cm \<and>
      getVec3 (material rd_cm) COLOR = Inr c_cm \<and>
      getFloat (material rd_cm) OPACITY = Inl e_cm \<longrightarrow>
        R_cm = (Inl e_cm, w_cm\<lparr>trace := trace w_cm @ material_reads\<rparr>)) \<and>
     (inputs rd_cr t_cr c_cr a_cr \<and> getTarget t_cr \<noteq> GL_TEXTURE_CUBE_MAP \<longrightarrow>
        R_cr =
          (Inl (Thrown ''CubemapReflectionShader::render : texture with wrong target''),
           w_cr\<lparr>trace := trace w_cr @ material_reads\<rparr>)) \<and>
     (getTexture (material rd_cr) MAIN_TEXTURE = Inl e_cr \<longrightarrow>
        R_cr =
          (Inl e_cr,
           w_cr\<lparr>trace := trace w_cr @
              [RenderData_mesh, Material_getTexture MAIN_TEXTURE]\<rparr>)) \<and>
     (getTexture (material rd_cr) MAIN_TEXTURE = Inr t_cr \<and>
      getVec3 (material rd_cr) COLOR = Inl e_cr \<longrightarrow>
        R_cr =
          (Inl e_cr,
           w_cr\<lparr>trace := trace w_cr @
              [RenderData_mesh, Material_getTexture MAIN_TEXTURE,
               Material_getVec3 COLOR]\<rparr>)) \<and>
     (getTexture (material rd_cr) MAIN_TEXTURE = Inr t_cr \<and>
      getVec3 (material rd_cr) COLOR = Inr c_cr \<and>
      getFloat (material rd_cr) OPACITY = Inl e_cr \<longrightarrow>
        R_cr = (Inl e_cr, w_cr\<lparr>trace := trace w_cr @ material_reads\<rparr>))"
  unfolding R_oes_def R_st_def R_cm_def R_cr_def
  by (intro conjI impI; (elim conjE)?)
     (simp_all add: OESShader_render_def R_st_def R_cm_def R_cr_def OESShader_render_def
        UnlitVerticalStereoShader_render_def CubemapShader_render_def
        CubemapReflectionShader_render_def read_inputs_returns read_inputs_no_texture
        read_inputs_no_color read_inputs_no_opacity)

text \<open>
  Each variant on the quad: with a texture of the wrong target; with a material that has
  no texture; and with a texture of the wrong target in a material that has no colour, or
  no opacity, where the accessor's exception is the one that leaves \<^verbatim>\<open>render\<close>.
\<close>

theorem material_is_read_before_target_test_witness:
  "inputs (ex_render_data GL_TEXTURE_2D) (ex_texture GL_TEXTURE_2D) (vec3 1 1 1) 1 \<and>
   getTexture (material (ex_render_data_without MAIN_TEXTURE GL_TEXTURE_2D)) MAIN_TEXTURE =
     Inl (Thrown ''no texture'') \<and>
   getTexture (material (ex_render_data_without COLOR GL_TEXTURE_2D)) MAIN_TEXTURE =
     Inr (ex_texture GL_TEXTURE_2D) \<and>
   getVec3 (material (ex_render_data_without COLOR GL_TEXTURE_2D)) COLOR = Inl (Thrown ''no color'') \<and>
   getTexture (material (ex_render_data_without OPACITY GL_TEXTURE_2D)) MAIN_TEXTURE =
     Inr (ex_texture GL_TEXTURE_2D) \<and>
   getVec3 (material (ex_render_data_without OPACITY GL_TEXTURE_2D)) COLOR = Inr (vec3 1 1 1) \<and>
   getFloat (material (ex_render_data_without OPACITY GL_TEXTURE_2D)) OPACITY =
     Inl (Thrown ''no opacity'') \<and>
   inputs (ex_render_data GL_TEXTURE_CUBE_MAP) (ex_texture GL_TEXTURE_CUBE_MAP) (vec3 1 1 1) 1 \<and>
   getTexture (material (ex_render_data_without MAIN_TEXTURE GL_TEXTURE_CUBE_MAP)) MAIN_TEXTURE =
     Inl (Thrown ''no texture'') \<and>
   getTexture (material (ex_render_data_without COLOR GL_TEXTURE_CUBE_MAP)) MAIN_TEXTURE =
     Inr (ex_texture GL_TEXTURE_CUBE_MAP) \<and>
   getVec3 (material (ex_render_data_without COLOR GL_TEXTURE_CUBE_MAP)) COLOR = Inl (Thrown ''no color'') \<and>
   getTexture (material (ex_render_data_without OPACITY GL_TEXTURE_CUBE_MAP)) MAIN_TEXTURE =
     Inr (ex_texture GL_TEXTURE_CUBE_MAP) \<and>
   getVec3 (material (ex_render_data_without OPACITY GL_TEXTURE_CUBE_MAP)) COLOR = Inr (vec3 1 1 1) \<and>
   getFloat (material (ex_render_data_without OPACITY GL_TEXTURE_CUBE_MAP)) OPACITY =
     Inl (Thrown ''no opacity'') \<and>
   getTarget (ex_texture GL_TEXTURE_2D) \<noteq> GL_TEXTURE_EXTERNAL_OES \<and>
   getTarget (ex_texture GL_TEXTURE_2D) \<noteq> GL_TEXTURE_CUBE_MAP \<and>
   getTarget (ex_texture GL_TEXTURE_CUBE_MAP) \<noteq> GL_TEXTURE_2D \<and>
   OESShader_render False ex_driver ex_OESShader identity
       (ex_render_data GL_TEXTURE_2D) ex_world =
     (Inl (Thrown ''OESShader::render : texture with wrong target''),
      ex_world\<lparr>trace := material_reads\<rparr>) \<and>
   OESShader_render False ex_driver ex_OESShader identity
       (ex_render_data_without MAIN_TEXTURE GL_TEXTURE_2D) ex_world =
     (Inl (Thrown ''no texture''),
      ex_world\<lparr>trace := [RenderData_mesh, Material_getTexture MAIN_TEXTURE]\<rparr>) \<and>
   OESShader_render False ex_driver ex_OESShader identity
       (ex_render_data_without COLOR GL_TEXTURE_2D) ex_world =
     (Inl (Thrown ''no color''),
      ex_world\<lparr>trace := [RenderData_mesh, Material_getTexture MAIN_TEXTURE,
                         Material_getVec3 COLOR]\<rparr>) \<and>
   OESShader_render False ex_driver ex_OESShader identity
       (ex_render_data_without OPACITY GL_TEXTURE_2D) ex_world =
     (Inl (Thrown ''no opacity''), ex_world\<lparr>trace := material_reads\<rparr>) \<and>
   UnlitVerticalStereoShader_render False ex_driver ex_UnlitVerticalStereoShader identity
       (ex_render_data GL_TEXTURE_CUBE_MAP) True ex_world =
     (Inl (Thrown ''UnlitVerticalStereoShader::render : texture with wrong target''),
      ex_world\<lparr>trace := material_reads\<rparr>) \<and>
   UnlitVerticalStereoShader_render False ex_driver ex_UnlitVerticalStereoShader identity
       (ex_render_data_without MAIN_TEXTURE GL_TEXTURE_CUBE_MAP) True ex_world =
     (Inl (Thrown ''no texture''),
      ex_world\<lparr>trace := [RenderData_mesh, Material_getTexture MAIN_TEXTURE]\<rparr>) \<and>
   UnlitVerticalStereoShader_render False ex_driver ex_UnlitVerticalStereoShader identity
       (ex_render_data_without COLOR GL_TEXTURE_CUBE_MAP) True ex_world =
     (Inl (Thrown ''no color''),
      ex_world\<lparr>trace := [RenderData_mesh, Material_getTexture MAIN_TEXTURE,
                         Material_getVec3 COLOR]\<rparr>) \<and>
   UnlitVerticalStereoShader_render False ex_driver ex_UnlitVerticalStereoShader identity
       (ex_render_data_without OPACITY GL_TEXTURE_CUBE_MAP) True ex_world =
     (Inl (Thrown ''no opacity''), ex_world\<lparr>trace := material_reads\<rparr>) \<and>
   CubemapShader_render True ex_driver ex_CubemapShader identity identity
       (ex_render_data GL_TEXTURE_2D) ex_world =
     (Inl (Thrown ''CubemapShader::render : texture with wrong target''),
      ex_world\<lparr>trace := material_reads\<rparr>) \<and>
   CubemapShader_render True ex_driver ex_CubemapShader identity identity
       (ex_render_data_without MAIN_TEXTURE GL_TEXTURE_2D) ex_world =
     (Inl (Thrown ''no texture''),
      ex_world\<lparr>trace := [RenderData_mesh, Material_getTexture MAIN_TEXTURE]\<rparr>) \<and>
   CubemapShader_render True ex_driver ex_CubemapShader identity identity
       (ex_render_data_without COLOR GL_TEXTURE_2D) ex_world =
     (Inl (Thrown ''no color''),
      ex_world\<lparr>trace := [RenderData_mesh, Material_getTexture MAIN_TEXTURE,
                         Material_getVec3 COLOR]\<rparr>) \<and>
   CubemapShader_render True ex_driver ex_CubemapShader identity identity
       (ex_render_data_without OPACITY GL_TEXTURE_2D) ex_world =
     (Inl (Thrown ''no opacity''), ex_world\<lparr>trace := material_reads\<rparr>) \<and>
   CubemapReflectionShader_render True ex_driver ex_CubemapReflectionShader identity identity identity identity
       (ex_render_data GL_TEXTURE_2D) ex_world =
     (Inl (Thrown ''CubemapReflectionShader::render : texture with wrong target''),
      ex_world\<lparr>trace := material_reads\<rparr>) \<and>
   CubemapReflectionShader_render True ex_driver ex_CubemapReflectionShader identity identity identity identity
       (ex_render_data_without MAIN_TEXTURE GL_TEXTURE_2D) ex_world =
     (Inl (Thrown ''no texture''),
      ex_world\<lparr>trace := [RenderData_mesh, Material_getTexture MAIN_TEXTURE]\<rparr>) \<and>
   CubemapReflectionShader_render True ex_driver ex_CubemapReflectionShader identity identity identity identity
       (ex_render_data_without COLOR GL_TEXTURE_2D) ex_world =
     (Inl (Thrown ''no color''),
      ex_world\<lparr>trace := [RenderData_mesh, Material_getTexture MAIN_TEXTURE,
                         Material_getVec3 COLOR]\<rparr>) \<and>
   CubemapReflectionShader_render True ex_driver ex_CubemapReflectionShader identity identity identity identity
       (ex_render_data_without OPACITY GL_TEXTURE_2D) ex_world =
     (Inl (Thrown ''no opacity''), ex_world\<lparr>trace := material_reads\<rparr>)"
  using material_is_read_before_target_test
    [where g_oes = False and drv_oes = ex_driver and s_oes = ex_OESShader and w_oes = ex_world
       and mvp_oes = identity
       and rd_oes = "ex_render_data GL_TEXTURE_2D" and t_oes = "ex_texture GL_TEXTURE_2D"
       and c_oes = "vec3 1 1 1" and a_oes = 1 and e_oes = "Thrown ''none''"
       and g_st = False and drv_st = ex_driver and s_st = ex_UnlitVerticalStereoShader and w_st = ex_world
       and mvp_st = identity and right_st = True
       and rd_st = "ex_render_data GL_TEXTURE_CUBE_MAP" and t_st = "ex_texture GL_TEXTURE_CUBE_MAP"
       and c_st = "vec3 1 1 1" and a_st = 1 and e_st = "Thrown ''none''"
       and g_cm = True and drv_cm = ex_driver and s_cm = ex_CubemapShader and w_cm = ex_world
       and model_cm = identity and mvp_cm = identity
       and rd_cm = "ex_render_data GL_TEXTURE_2D" and t_cm = "ex_texture GL_TEXTURE_2D"
       and c_cm = "vec3 1 1 1" and a_cm = 1 and e_cm = "Thrown ''none''"
       and g_cr = True and drv_cr = ex_driver and s_cr = ex_CubemapReflectionShader and w_cr = ex_world
       and mv_cr = identity and mv_it_cr = identity and view_i_cr = identity and mvp_cr = identity
       and rd_cr = "ex_render_data GL_TEXTURE_2D" and t_cr = "ex_texture GL_TEXTURE_2D"
       and c_cr = "vec3 1 1 1" and a_cr = 1 and e_cr = "Thrown ''none''"]
    material_is_read_before_target_test
    [where g_oes = False and drv_oes = ex_driver and s_oes = ex_OESShader and w_oes = ex_world
       and mvp_oes = identity
       and rd_oes = "ex_render_data_without MAIN_TEXTURE GL_TEXTURE_2D" and t_oes = "ex_texture GL_TEXTURE_2D"
       and c_oes = "vec3 1 1 1" and a_oes = 1 and e_oes = "Thrown ''no texture''"
       and g_st = False and drv_st = ex_driver and s_st = ex_UnlitVerticalStereoShader and w_st = ex_world
       and mvp_st = identity and right_st = True
       and rd_st = "ex_render_data_without MAIN_TEXTURE GL_TEXTURE_CUBE_MAP" and t_st = "ex_texture GL_TEXTURE_CUBE_MAP"
       and c_st = "vec3 1 1 1" and a_st = 1 and e_st = "Thrown ''no texture''"
       and g_cm = True and drv_cm = ex_driver and s_cm = ex_CubemapShader and w_cm = ex_world
       and model_cm = identity and mvp_cm = identity
       and rd_cm = "ex_render_data_without MAIN_TEXTURE GL_TEXTURE_2D" and t_cm = "ex_texture GL_TEXTURE_2D"
       and c_cm = "vec3 1 1 1" and a_cm = 1 and e_cm = "Thrown ''no texture''"
       and g_cr = True and drv_cr = ex_driver and s_cr = ex_CubemapReflectionShader and w_cr = ex_world
       and mv_cr = identity and mv_it_cr = identity and view_i_cr = identity and mvp_cr = identity
       and rd_cr = "ex_render_data_without MAIN_TEXTURE GL_TEXTURE_2D" and t_cr = "ex_texture GL_TEXTURE_2D"
       and c_cr = "vec3 1 1 1" and a_cr = 1 and e_cr = "Thrown ''no texture''"]
    material_is_read_before_target_test
    [where g_oes = False and drv_oes = ex_driver and s_oes = ex_OESShader and w_oes = ex_world
       and mvp_oes = identity
       and rd_oes = "ex_render_data_without COLOR GL_TEXTURE_2D" and t_oes = "ex_texture GL_TEXTURE_2D"
       and c_oes = "vec3 1 1 1" and a_oes = 1 and e_oes = "Thrown ''no color''"
       and g_st = False and drv_st = ex_driver and s_st = ex_UnlitVerticalStereoShader and w_st = ex_world
       and mvp_st = identity and right_st = True
       and rd_st = "ex_render_data_without COLOR GL_TEXTURE_CUBE_MAP" and t_st = "ex_texture GL_TEXTURE_CUBE_MAP"
       and c_st = "vec3 1 1 1" and a_st = 1 and e_st = "Thrown ''no color''"
       and g_cm = True and drv_cm = ex_driver and s_cm = ex_CubemapShader and w_cm = ex_world
       and model_cm = identity and mvp_cm = identity
       and rd_cm = "ex_render_data_without COLOR GL_TEXTURE_2D" and t_cm = "ex_texture GL_TEXTURE_2D"
       and c_cm = "vec3 1 1 1" and a_cm = 1 and e_cm = "Thrown ''no color''"
       and g_cr = True and drv_cr = ex_driver and s_cr = ex_CubemapReflectionShader and w_cr = ex_world
       and mv_cr = identity and mv_it_cr = identity and view_i_cr = identity and mvp_cr = identity
       and rd_cr = "ex_render_data_without COLOR GL_TEXTURE_2D" and t_cr = "ex_texture GL_TEXTURE_2D"
       and c_cr = "vec3 1 1 1" and a_cr = 1 and e_cr = "Thrown ''no color''"]
    material_is_read_before_target_test
    [where g_oes = False and drv_oes = ex_driver and s_oes = ex_OESShader and w_oes = ex_world
       and mvp_oes = identity
       and rd_oes = "ex_render_data_without OPACITY GL_TEXTURE_2D" and t_oes = "ex_texture GL_TEXTURE_2D"
       and c_oes = "vec3 1 1 1" and a_oes = 1 and e_oes = "Thrown ''no opacity''"
       and g_st = False and drv_st = ex_driver and s_st = ex_UnlitVerticalStereoShader and w_st = ex_world
       and mvp_st = identity and right_st = True
       and rd_st = "ex_render_data_without OPACITY GL_TEXTURE_CUBE_MAP" and t_st = "ex_texture GL_TEXTURE_CUBE_MAP"
       and c_st = "vec3 1 1 1" and a_st = 1 and e_st = "Thrown ''no opacity''"
       and g_cm = True and drv_cm = ex_driver and s_cm = ex_CubemapShader and w_cm = ex_world
       and model_cm = identity and mvp_cm = identity
       and rd_cm = "ex_render_data_without OPACITY GL_TEXTURE_2D" and t_cm = "ex_texture GL_TEXTURE_2D"
       and c_cm = "vec3 1 1 1" and a_cm = 1 and e_cm = "Thrown ''no opacity''"
       and g_cr = True and drv_cr = ex_driver and s_cr = ex_CubemapReflectionShader and w_cr = ex_world
       and mv_cr = identity and mv_it_cr = identity and view_i_cr = identity and mvp_cr = identity
       and rd_cr = "ex_render_data_without OPACITY GL_TEXTURE_2D" and t_cr = "ex_texture GL_TEXTURE_2D"
       and c_cr = "vec3 1 1 1" and a_cr = 1 and e_cr = "Thrown ''no opacity''"]
  by (simp add: ex_defs)

subsection \<open>Recycling\<close>

lemma delete_live:
  "heap w a = Some pid \<Longrightarrow>
     delete_GLProgram (Some a) w =
       (Inr (), w\<lparr>heap := (heap w)(a := None), trace := trace w @ [Delete_GLProgram a]\<rparr>)"
  by (simp add: delete_GLProgram_def)

lemma delete_null: "delete_GLProgram None w = (Inr (), w)"
  by (simp add: delete_GLProgram_def)

text \<open>
  Claim C7. In every variant, \<^verbatim>\<open>recycle\<close> on a shader that owns a live program deletes
  that program (one \<open>Delete_GLProgram\<close> event, the object leaves the heap) and leaves the
  shader with a null program; a second \<^verbatim>\<open>recycle\<close>, or the destructor, after it returns
  normally and changes nothing: the program is released once, never twice.
\<close>

theorem recycle_releases_once:
  fixes
    s_oes :: OESShader and
    s_st :: UnlitVerticalStereoShader and
    s_cm :: CubemapShader and
    s_cr :: CubemapReflectionShader
  shows
    "(OESShader.program s_oes = Some p_oes \<and> heap w_oes p_oes = Some pid_oes \<longrightarrow>
        OESShader_recycle s_oes w_oes =
          (Inr (s_oes\<lparr>OESShader.program := None\<rparr>),
           w_oes\<lparr>heap := (heap w_oes)(p_oes := None),
                 trace := trace w_oes @ [Delete_GLProgram p_oes]\<rparr>) \<and>
        and_then (OESShader_recycle s_oes w_oes) OESShader_recycle =
          OESShader_recycle s_oes w_oes \<and>
        and_then (OESShader_recycle s_oes w_oes) OESShader_dtor =
          OESShader_recycle s_oes w_oes) \<and>
     (UnlitVerticalStereoShader.program s_st = Some p_st \<and> heap w_st p_st = Some pid_st \<longrightarrow>
        UnlitVerticalStereoShader_recycle s_st w_st =
          (Inr (s_st\<lparr>UnlitVerticalStereoShader.program := None\<rparr>),
           w_st\<lparr>heap := (heap w_st)(p_st := None),
                 trace := trace w_st @ [Delete_GLProgram p_st]\<rparr>) \<and>
        and_then (UnlitVerticalStereoShader_recycle s_st w_st) UnlitVerticalStereoShader_recycle =
          UnlitVerticalStereoShader_recycle s_st w_st \<and>
        and_then (UnlitVerticalStereoShader_recycle s_st w_st) UnlitVerticalStereoShader_dtor =
          UnlitVerticalStereoShader_recycle s_st w_st) \<and>
     (CubemapShader.program s_cm = Some p_cm \<and> heap w_cm p_cm = Some pid_cm \<longrightarrow>
        CubemapShader_recycle s_cm w_cm =
          (Inr (s_cm\<lparr>CubemapShader.program := None\<rparr>),
           w_cm\<lparr>heap := (heap w_cm)(p_cm := None),
                 trace := trace w_cm @ [Delete_GLProgram p_cm]\<rparr>) \<and>
        and_then (CubemapShader_recycle s_cm w_cm) CubemapShader_recycle =
          CubemapShader_recycle s_cm w_cm \<and>
        and_then (CubemapShader_recycle s_cm w_cm) CubemapShader_dtor =
          CubemapShader_recycle s_cm w_cm) \<and>
     (CubemapReflectionShader.program s_cr = Some p_cr \<and> heap w_cr p_cr = Some pid_cr \<longrightarrow>
        CubemapReflectionShader_recycle s_cr w_cr =
          (Inr (s_cr\<lparr>CubemapReflectionShader.program := None\<rparr>),
           w_cr\<lparr>heap := (heap w_cr)(p_cr := None),
                 trace := trace w_cr @ [Delete_GLProgram p_cr]\<rparr>) \<and>
        and_then (CubemapReflectionShader_recycle s_cr w_cr) CubemapReflectionShader_recycle =
          CubemapReflectionShader_recycle s_cr w_cr \<and>
        and_then (CubemapReflectionShader_recycle s_cr w_cr) CubemapReflectionShader_dtor =
          CubemapReflectionShader_recycle s_cr w_cr)"
  by (intro conjI impI; (elim conjE)?)
     (simp_all add: OESShader_recycle_def OESShader_dtor_def
        UnlitVerticalStereoShader_recycle_def UnlitVerticalStereoShader_dtor_def
        CubemapShader_recycle_def CubemapShader_dtor_def
        CubemapReflectionShader_recycle_def CubemapReflectionShader_dtor_def
        delete_live delete_null and_then_def)

text \<open>
  The four example shaders own the program at address 0 of the example world: after
  \<^verbatim>\<open>recycle(); recycle();\<close> and after \<^verbatim>\<open>recycle();\<close> and the destructor, the heap is empty
  and the trace holds one release.
\<close>

theorem recycle_releases_once_witness:
  "heap ex_world 0 = Some 3 \<and>
   OESShader.program ex_OESShader = Some 0 \<and>
   UnlitVerticalStereoShader.program ex_UnlitVerticalStereoShader = Some 0 \<and>
   CubemapShader.program ex_CubemapShader = Some 0 \<and>
   CubemapReflectionShader.program ex_CubemapReflectionShader = Some 0 \<and>
   and_then (OESShader_recycle ex_OESShader ex_world) OESShader_recycle =
     (Inr (ex_OESShader\<lparr>OESShader.program := None\<rparr>),
      ex_world\<lparr>heap := Map.empty, trace := [Delete_GLProgram 0]\<rparr>) \<and>
   and_then (OESShader_recycle ex_OESShader ex_world) OESShader_dtor =
     (Inr (ex_OESShader\<lparr>OESShader.program := None\<rparr>),
      ex_world\<lparr>heap := Map.empty, trace := [Delete_GLProgram 0]\<rparr>) \<and>
   and_then (UnlitVerticalStereoShader_recycle ex_UnlitVerticalStereoShader ex_world) UnlitVerticalStereoShader_recycle =
     (Inr (ex_UnlitVerticalStereoShader\<lparr>UnlitVerticalStereoShader.program := None\<rparr>),
      ex_world\<lparr>heap := Map.empty, trace := [Delete_GLProgram 0]\<rparr>) \<and>
   and_then (UnlitVerticalStereoShader_recycle ex_UnlitVerticalStereoShader ex_world) UnlitVerticalStereoShader_dtor =
     (Inr (ex_UnlitVerticalStereoShader\<lparr>UnlitVerticalStereoShader.program := None\<rparr>),
      ex_world\<lparr>heap := Map.empty, trace := [Delete_GLProgram 0]\<rparr>) \<and>
   and_then (CubemapShader_recycle ex_CubemapShader ex_world) CubemapShader_recycle =
     (Inr (ex_CubemapShader\<lparr>CubemapShader.program := None\<rparr>),
      ex_world\<lparr>heap := Map.empty, trace := [Delete_GLProgram 0]\<rparr>) \<and>
   and_then (CubemapShader_recycle ex_CubemapShader ex_world) CubemapShader_dtor =
     (Inr (ex_CubemapShader\<lparr>CubemapShader.program := None\<rparr>),
      ex_world\<lparr>heap := Map.empty, trace := [Delete_GLProgram 0]\<rparr>) \<and>
   and_then (CubemapReflectionShader_recycle ex_CubemapReflectionShader ex_world) CubemapReflectionShader_recycle =
     (Inr (ex_CubemapReflectionShader\<lparr>CubemapReflectionShader.program := None\<rparr>),
      ex_world\<lparr>heap := Map.empty, trace := [Delete_GLProgram 0]\<rparr>) \<and>
   and_then (CubemapReflectionShader_recycle ex_CubemapReflectionShader ex_world) CubemapReflectionShader_dtor =
     (Inr (ex_CubemapReflectionShader\<lparr>CubemapReflectionShader.program := None\<rparr>),
      ex_world\<lparr>heap := Map.empty, trace := [Delete_GLProgram 0]\<rparr>)"
  using recycle_releases_once
    [where s_oes = ex_OESShader and w_oes = ex_world and p_oes = 0 and pid_oes = 3
       and s_st = ex_UnlitVerticalStereoShader and w_st = ex_world and p_st = 0 and pid_st = 3
       and s_cm = ex_CubemapShader and w_cm = ex_world and p_cm = 0 and pid_cm = 3
       and s_cr = ex_CubemapReflectionShader and w_cr = ex_world and p_cr = 0 and pid_cr = 3]
  by (simp add: ex_defs OESShader_recycle_def OESShader_dtor_def
        UnlitVerticalStereoShader_recycle_def UnlitVerticalStereoShader_dtor_def
        CubemapShader_recycle_def CubemapShader_dtor_def
        CubemapReflectionShader_recycle_def CubemapReflectionShader_dtor_def
        delete_GLProgram_def and_then_def)

subsection \<open>Location handles\<close>




subsection \<open>The shader stages\<close>

lemma mat_vec_identity [simp]: "mat_vec identity v = v"
  by (cases v) (simp add: identity_def)

text \<open>
  Claim C3. The fragment stage of the stereo shader samples the texture at the incoming
  u and at \<open>0.5 * (v + right)\<close>, where \<open>right\<close> is the 0 or 1 that \<^verbatim>\<open>render\<close> uploads
  to \<^verbatim>\<open>u_right\<close> for its flag: so the v coordinates sampled for v in \<open>[0, 1]\<close> are exactly
  \<open>[0, 0.5]\<close> for the left eye and exactly \<open>[0.5, 1]\<close> for the right eye. (Coordinates
  are reals here.)
\<close>

theorem stereo_samples_one_half:
  fixes g drv s mvp rd right w
  defines "R \<equiv> UnlitVerticalStereoShader_render g drv s mvp rd right w"
  shows
    "UnlitVerticalStereoShader_tex_coord (if right then 1 else 0) (vec2 u v) =
       vec2 u (0.5 * (v + (if right then 1 else 0))) \<and>
     UnlitVerticalStereoShader_fragment sampler ucolor uopacity uright vtexcoord =
       OESShader_fragment sampler ucolor uopacity
         (UnlitVerticalStereoShader_tex_coord uright vtexcoord) \<and>
     (\<lambda>v. y2 (UnlitVerticalStereoShader_tex_coord 0 (vec2 u v))) ` {0..1} = {0..1/2} \<and>
     (\<lambda>v. y2 (UnlitVerticalStereoShader_tex_coord 1 (vec2 u v))) ` {0..1} = {1/2..1} \<and>
     (inputs rd t c a \<and> getTarget t = GL_TEXTURE_2D \<and>
      live (UnlitVerticalStereoShader.program s) w \<longrightarrow>
        GL (glUniform1i (UnlitVerticalStereoShader.u_right s) (if right then 1 else 0))
          \<in> set (emitted w (snd R)))"
proof (intro conjI impI; (elim conjE)?)
  show "UnlitVerticalStereoShader_tex_coord (if right then 1 else 0) (vec2 u v) =
      vec2 u (0.5 * (v + (if right then 1 else 0)))"
    by (simp add: UnlitVerticalStereoShader_tex_coord_def)
  show "UnlitVerticalStereoShader_fragment sampler ucolor uopacity uright vtexcoord =
      OESShader_fragment sampler ucolor uopacity
        (UnlitVerticalStereoShader_tex_coord uright vtexcoord)"
    by (simp add: UnlitVerticalStereoShader_fragment_def OESShader_fragment_def)
  show "(\<lambda>v. y2 (UnlitVerticalStereoShader_tex_coord 0 (vec2 u v))) ` {0..1} = {0..1/2}"
  proof (intro set_eqI iffI)
    fix y assume "y \<in> (\<lambda>v. y2 (UnlitVerticalStereoShader_tex_coord 0 (vec2 u v))) ` {0..1}"
    then show "y \<in> {0..1/2}"
      by (auto simp add: UnlitVerticalStereoShader_tex_coord_def)
  next
    fix y :: real assume "y \<in> {0..1/2}"
    then have "2 * y \<in> {0..1}" and "y = y2 (UnlitVerticalStereoShader_tex_coord 0 (vec2 u (2 * y)))"
      by (simp_all add: UnlitVerticalStereoShader_tex_coord_def)
    then show "y \<in> (\<lambda>v. y2 (UnlitVerticalStereoShader_tex_coord 0 (vec2 u v))) ` {0..1}"
      by (rule rev_image_eqI)
  qed
  show "(\<lambda>v. y2 (UnlitVerticalStereoShader_tex_coord 1 (vec2 u v))) ` {0..1} = {1/2..1}"
  proof (intro set_eqI iffI)
    fix y assume "y \<in> (\<lambda>v. y2 (UnlitVerticalStereoShader_tex_coord 1 (vec2 u v))) ` {0..1}"
    then show "y \<in> {1/2..1}"
      by (auto simp add: UnlitVerticalStereoShader_tex_coord_def)
  next
    fix y :: real assume "y \<in> {1/2..1}"
    then have "2 * y - 1 \<in> {0..1}"
      and "y = y2 (UnlitVerticalStereoShader_tex_coord 1 (vec2 u (2 * y - 1)))"
      by (simp_all add: UnlitVerticalStereoShader_tex_coord_def)
    then show "y \<in> (\<lambda>v. y2 (UnlitVerticalStereoShader_tex_coord 1 (vec2 u v))) ` {0..1}"
      by (rule rev_image_eqI)
  qed
  show "GL (glUniform1i (UnlitVerticalStereoShader.u_right s) (if right then 1 else 0))
      \<in> set (emitted w (snd R))"
    if "inputs rd t c a" "getTarget t = GL_TEXTURE_2D"
      "live (UnlitVerticalStereoShader.program s) w"
  proof -
    from that(3) obtain pid where
      "GLProgram_id (UnlitVerticalStereoShader.program s) w = Inr pid"
      using live_id by blast
    with that(1,2) show ?thesis
      by (simp add: R_def UnlitVerticalStereoShader_render_def read_inputs_returns run_eq
            checkGlError_def emitted_def material_reads_def del: run.simps)
  qed
qed

text \<open>
  The right eye of the example: \<^verbatim>\<open>render\<close> uploads 1 (to the unresolved location of the
  example shader), and the v coordinate 0.5 is sampled at 0.75.
\<close>

theorem stereo_samples_one_half_witness:
  "inputs (ex_render_data GL_TEXTURE_2D) (ex_texture GL_TEXTURE_2D) (vec3 1 1 1) 1 \<and>
   getTarget (ex_texture GL_TEXTURE_2D) = GL_TEXTURE_2D \<and>
   live (UnlitVerticalStereoShader.program ex_UnlitVerticalStereoShader) ex_world \<and>
   GL (glUniform1i (- 1) 1) \<in>
     set (emitted ex_world
            (snd (UnlitVerticalStereoShader_render False ex_driver
                    ex_UnlitVerticalStereoShader identity (ex_render_data GL_TEXTURE_2D) True
                    ex_world))) \<and>
   UnlitVerticalStereoShader_tex_coord 1 (vec2 0 (1/2)) = vec2 0 (3/4)"
  using stereo_samples_one_half
    [where g = False and drv = ex_driver and s = ex_UnlitVerticalStereoShader
       and mvp = identity and rd = "ex_render_data GL_TEXTURE_2D" and right = True
       and w = ex_world and t = "ex_texture GL_TEXTURE_2D" and c = "vec3 1 1 1" and a = 1
       and u = 0 and v = "1/2"]
  by (simp add: ex_defs live_def)

text \<open>
  Claim C4. The vertex stage of the cube-map shader computes, for every position and
  model matrix, the texture coordinate \<open>normalize((model * position).xyz)\<close> with its z
  component negated. Under the identity model matrix the z component is the negation of
  that of the normalized position, and so is its sign. (Over the reals, where the
  normalization of the zero vector is the zero vector.)
\<close>

theorem cubemap_direction_has_z_negated:
  "fst (CubemapShader_vertex model mvp position) =
     negate_z (normalize3 (xyz (mat_vec model position))) \<and>
   x3 (fst (CubemapShader_vertex model mvp position)) =
     x3 (normalize3 (xyz (mat_vec model position))) \<and>
   y3 (fst (CubemapShader_vertex model mvp position)) =
     y3 (normalize3 (xyz (mat_vec model position))) \<and>
   z3 (fst (CubemapShader_vertex model mvp position)) =
     - z3 (normalize3 (xyz (mat_vec model position))) \<and>
   z3 (fst (CubemapShader_vertex identity mvp position)) = - z3 (normalize3 (xyz position)) \<and>
   sgn (z3 (fst (CubemapShader_vertex identity mvp position))) =
     - sgn (z3 (normalize3 (xyz position))) \<and>
   snd (CubemapShader_vertex model mvp position) = mat_vec mvp position"
  by (simp add: CubemapShader_vertex_def negate_z_def Let_def sgn_minus)

text \<open>
  Claim C5 says that the reflection shader transforms the reflected vector by the
  view-inverse matrix as a direction vector. The stage multiplies the matrix with
  \<^verbatim>\<open>vec4(v_reflected_position, 1.0f)\<close>: the vector is transformed as a point, and the
  translation of the matrix is added to it.

  The counterexample: identity model-view matrices, a camera moved one unit along x, the
  position \<open>(0, 0, 1)\<close> and the normal \<open>(0, 0, 1)\<close>. The reflected vector is \<open>(0, 0, - 1)\<close>;
  as a direction it would give the coordinate \<open>(0, 0, 1)\<close>, and the stage gives
  \<open>(1, 0, 1)\<close>.
\<close>

theorem reflection_is_not_a_direction_counterexample:
  "fst (CubemapReflectionShader_vertex identity identity identity ex_view_i
          (vec4 0 0 1 1) (vec3 0 0 1)) = vec3 1 0 1 \<and>
   reflection_as_direction identity identity ex_view_i (vec4 0 0 1 1) (vec3 0 0 1) =
     vec3 0 0 1 \<and>
   fst (CubemapReflectionShader_vertex identity identity identity ex_view_i
          (vec4 0 0 1 1) (vec3 0 0 1)) \<noteq>
     reflection_as_direction identity identity ex_view_i (vec4 0 0 1 1) (vec3 0 0 1)"
  by (simp add: CubemapReflectionShader_vertex_def reflection_as_direction_def
        transform_direction_def negate_z_def reflect_def normalize3_def length3_def dot_def
        div3_def sub3_def scale3_def xyz_def vec4_of_def ex_view_i_def Let_def)

text \<open>
  Claim C5 as amended. For every position, normal and matrices: the view-space position
  is \<open>mv * position\<close> divided by its w; the view-space normal is the \<^verbatim>\<open>xyz\<close> of
  \<open>mv_it * vec4(normal, 1)\<close>; the texture coordinate is the view-space position
  reflected about the normalized view-space normal, then transformed by the view-inverse
  matrix as a point (the result of transforming it as a direction, plus the translation
  of the matrix), with its z component negated. (Over the reals, where a division by
  zero gives zero.)
\<close>

theorem reflection_is_transformed_as_point:
  fixes mv mv_it mvp view_i :: mat4 and position :: vec4 and normal :: vec3
  defines "v_viewspace_position \<equiv> div3 (xyz (mat_vec mv position)) (w4 (mat_vec mv position))"
    and "v_viewspace_normal \<equiv> xyz (mat_vec mv_it (vec4_of normal 1))"
  shows
    "fst (CubemapReflectionShader_vertex mv mv_it mvp view_i position normal) =
       negate_z (transform_point view_i
         (reflect v_viewspace_position (normalize3 v_viewspace_normal))) \<and>
     transform_point view_i (reflect v_viewspace_position (normalize3 v_viewspace_normal)) =
       add3 (transform_direction view_i
               (reflect v_viewspace_position (normalize3 v_viewspace_normal)))
            (translation view_i) \<and>
     snd (CubemapReflectionShader_vertex mv mv_it mvp view_i position normal) =
       mat_vec mvp position"
proof (intro conjI)
  show "fst (CubemapReflectionShader_vertex mv mv_it mvp view_i position normal) =
      negate_z (transform_point view_i
        (reflect v_viewspace_position (normalize3 v_viewspace_normal)))"
    by (simp add: CubemapReflectionShader_vertex_def transform_point_def negate_z_def
          v_viewspace_position_def v_viewspace_normal_def Let_def)
  show "transform_point view_i (reflect v_viewspace_position (normalize3 v_viewspace_normal)) =
      add3 (transform_direction view_i
              (reflect v_viewspace_position (normalize3 v_viewspace_normal)))
           (translation view_i)"
  proof -
    have "transform_point m d = add3 (transform_direction m d) (translation m)" for m d
    proof (cases m)
      case (mat4 c0 c1 c2 c3)
      then show ?thesis
        by (cases c0; cases c1; cases c2; cases c3; cases d)
           (simp add: transform_point_def transform_direction_def add3_def xyz_def
              vec4_of_def)
    qed
    then show ?thesis .
  qed
  show "snd (CubemapReflectionShader_vertex mv mv_it mvp view_i position normal) =
      mat_vec mvp position"
    by (simp add: CubemapReflectionShader_vertex_def Let_def)
qed

text \<open>
  Claim C6. In all four variants the fragment colour is the unlit colour of the texel
  sampled: red, green and blue are the texel's times the material colour's times the
  opacity, alpha is the texel's alpha times the opacity. The stages take the sampler, the
  colour, the opacity and the coordinate (and the stereo stage its eye): there is no
  light among their inputs.
\<close>

theorem fragment_is_unlit:
  "OESShader_fragment sampler2 ucolor uopacity vtexcoord2 =
     unlit_output (sampler2 vtexcoord2) ucolor uopacity \<and>
   UnlitVerticalStereoShader_fragment sampler2 ucolor uopacity uright vtexcoord2 =
     unlit_output (sampler2 (UnlitVerticalStereoShader_tex_coord uright vtexcoord2))
       ucolor uopacity \<and>
   CubemapShader_fragment sampler3 ucolor uopacity vtexcoord3 =
     unlit_output (sampler3 vtexcoord3) ucolor uopacity \<and>
   CubemapReflectionShader_fragment sampler3 ucolor uopacity vtexcoord3 =
     unlit_output (sampler3 vtexcoord3) ucolor uopacity \<and>
   unlit_output sample ucolor uopacity =
     vec4 (x4 sample * x3 ucolor * uopacity) (y4 sample * y3 ucolor * uopacity)
          (z4 sample * z3 ucolor * uopacity) (w4 sample * uopacity)"
  by (simp add: OESShader_fragment_def UnlitVerticalStereoShader_fragment_def
        CubemapShader_fragment_def CubemapReflectionShader_fragment_def unlit_output_def
        vec4_of_def scale3_def mul3_def xyz_def Let_def mult.commute mult.left_commute)

end
